theory Spec2Isabelle
  imports Complex_Main "HOL-Library.Monad_Syntax"
begin

section \<open>The JavaScript runtime operations used by the bot\<close>

text \<open>
  The interview bot (\<^verbatim>\<open>src/bot.ts\<close>) is a TypeScript class whose handlers mutate one
  \<^verbatim>\<open>InterviewState\<close> object per candidate. The handlers are embedded as functions from the
  state before a call to the state after it, together with the activities sent.

  Strings are \<^typ>\<open>string\<close>, one \<^typ>\<open>char\<close> per UTF-16 code unit, which covers the code
  units below 256. Integers (question counter, parsed scores and their sums) are exact, as
  the doubles of the program are while they stay below \<open>2^53\<close>. A quotient or product of
  numbers is rounded to the nearest double (\<open>toDouble\<close>), as the \<^verbatim>\<open>/\<close> and \<^verbatim>\<open>*\<close> of the program
  round it; overflow and subnormal numbers do not arise for the magnitudes handled here and
  are not modelled.
\<close>

subsection \<open>Strings\<close>

definition isWhiteSpace :: "char \<Rightarrow> bool" where
  "isWhiteSpace c \<longleftrightarrow>
     c \<in> set [CHR 0x09, CHR 0x0A, CHR 0x0B, CHR 0x0C, CHR 0x0D, CHR 0x20, CHR 0xA0]"

text \<open>\<^verbatim>\<open>String.prototype.trim\<close>.\<close>

definition trim :: "string \<Rightarrow> string" where
  "trim s = rev (dropWhile isWhiteSpace (rev (dropWhile isWhiteSpace s)))"

text \<open>\<^verbatim>\<open>s.replace(/c/g, r)\<close> for a single character \<open>c\<close> and a replacement without \<^verbatim>\<open>$\<close>.\<close>

definition replaceAllChar :: "char \<Rightarrow> string \<Rightarrow> string \<Rightarrow> string" where
  "replaceAllChar c r s = concat (map (\<lambda>x. if x = c then r else [x]) s)"

text \<open>
  The replacement text of \<^verbatim>\<open>String.prototype.replace\<close> with a string pattern: \<^verbatim>\<open>$$\<close> is a
  dollar sign, \<^verbatim>\<open>$&\<close> the matched text, \<^verbatim>\<open>$`\<close> the text before the match and \<^verbatim>\<open>$'\<close> the
  text after it; there are no capture groups, so every other character stands for itself.
\<close>

fun getSubstitution :: "string \<Rightarrow> string \<Rightarrow> string \<Rightarrow> string \<Rightarrow> string" where
  "getSubstitution matched before after [] = []"
| "getSubstitution matched before after [c] = [c]"
| "getSubstitution matched before after (c # d # r) =
     (if c = CHR ''$'' \<and> d = CHR ''$'' then CHR ''$'' # getSubstitution matched before after r
      else if c = CHR ''$'' \<and> d = CHR ''&'' then matched @ getSubstitution matched before after r
      else if c = CHR ''$'' \<and> d = CHR 0x60 then before @ getSubstitution matched before after r
      else if c = CHR ''$'' \<and> d = CHR 0x27 then after @ getSubstitution matched before after r
      else c # getSubstitution matched before after (d # r))"

text \<open>
  \<^verbatim>\<open>s.replace(pattern, replacement)\<close> for a non-empty string pattern: the first occurrence
  only. The second argument accumulates the text before the position examined.
\<close>

fun replaceFrom :: "string \<Rightarrow> string \<Rightarrow> string \<Rightarrow> string \<Rightarrow> string" where
  "replaceFrom pattern replacement before [] = []"
| "replaceFrom pattern replacement before (c # cs) =
     (if take (length pattern) (c # cs) = pattern
      then getSubstitution pattern before (drop (length pattern) (c # cs)) replacement
             @ drop (length pattern) (c # cs)
      else c # replaceFrom pattern replacement (before @ [c]) cs)"

definition replace :: "string \<Rightarrow> string \<Rightarrow> string \<Rightarrow> string" where
  "replace pattern replacement s = replaceFrom pattern replacement [] s"

text \<open>
  \<^verbatim>\<open>String.prototype.toUpperCase\<close> on the letters a to z. The program only compares the
  result with \<^verbatim>\<open>'N/A'\<close>, and no other character is mapped to \<^verbatim>\<open>N\<close>, \<^verbatim>\<open>/\<close> or \<^verbatim>\<open>A\<close>.
\<close>

definition toUpperCase :: "string \<Rightarrow> string" where
  "toUpperCase s =
     map (\<lambda>c. if 97 \<le> (of_char c :: nat) \<and> (of_char c :: nat) \<le> 122
              then char_of ((of_char c :: nat) - 32) else c) s"

text \<open>\<^verbatim>\<open>Array.prototype.join\<close> on strings, and \<^verbatim>\<open>s.split(',')\<close>.\<close>

fun joinWith :: "string \<Rightarrow> string list \<Rightarrow> string" where
  "joinWith sep [] = []"
| "joinWith sep [x] = x"
| "joinWith sep (x # y # ys) = x @ sep @ joinWith sep (y # ys)"

fun splitComma :: "string \<Rightarrow> string list" where
  "splitComma [] = [[]]"
| "splitComma (c # cs) =
     (if c = CHR '','' then [] # splitComma cs
      else (case splitComma cs of [] \<Rightarrow> [[c]] | w # ws \<Rightarrow> (c # w) # ws))"

subsection \<open>Numbers\<close>

text \<open>\<^verbatim>\<open>Number.prototype.toString\<close> on a natural number, and on an integer.\<close>

function showNat :: "nat \<Rightarrow> string" where
  "showNat n =
     (if n < 10 then [''0123456789'' ! n]
      else showNat (n div 10) @ [''0123456789'' ! (n mod 10)])"
  by pat_completeness auto
termination
  by (relation "measure id") auto

declare showNat.simps [simp del]

definition showInt :: "int \<Rightarrow> string" where
  "showInt i = (if i < 0 then CHR ''-'' # showNat (nat (- i)) else showNat (nat i))"

text \<open>
  \<^verbatim>\<open>parseInt(s)\<close> without a radix: leading white space is skipped, a sign is read, a prefix
  \<^verbatim>\<open>0x\<close> selects radix 16, and the longest run of digits is the value. \<open>None\<close> is \<^verbatim>\<open>NaN\<close>.
  The value is the exact integer that the digits denote. The program gets the nearest
  double, which is that integer while its magnitude is below \<open>2^53\<close>; beyond that the two
  differ, and the figures of the final report are then outside this model.
\<close>

definition digitValue :: "nat \<Rightarrow> char \<Rightarrow> nat option" where
  "digitValue radix c =
     (let n = (of_char c :: nat);
          v = (if 48 \<le> n \<and> n \<le> 57 then Some (n - 48)
               else if 97 \<le> n \<and> n \<le> 122 then Some (n - 87)
               else if 65 \<le> n \<and> n \<le> 90 then Some (n - 55)
               else None)
      in case v of None \<Rightarrow> None | Some d \<Rightarrow> if d < radix then Some d else None)"

definition parseDigits :: "nat \<Rightarrow> string \<Rightarrow> int option" where
  "parseDigits radix s =
     (let ds = takeWhile (\<lambda>c. digitValue radix c \<noteq> None) s
      in if ds = [] then None
         else Some (foldl (\<lambda>acc c. acc * int radix + int (the (digitValue radix c))) 0 ds))"

definition parseInt :: "string \<Rightarrow> int option" where
  "parseInt inputString =
     (let s = dropWhile isWhiteSpace inputString;
          negative = (take 1 s = ''-'');
          s1 = (if take 1 s = ''-'' \<or> take 1 s = ''+'' then drop 1 s else s);
          hex = (take 2 s1 = ''0x'' \<or> take 2 s1 = ''0X'');
          mag = (if hex then parseDigits 16 (drop 2 s1) else parseDigits 10 s1)
      in map_option (\<lambda>m. if negative then - m else m) mag)"

text \<open>
  Rounding a rational to the nearest double, ties to the even mantissa: the result of one
  arithmetic operation of the program on the exact result of that operation.
\<close>

definition roundHalfEven :: "rat \<Rightarrow> int" where
  "roundHalfEven y =
     (let f = \<lfloor>y\<rfloor>; r = y - of_int f
      in if r < 1 / 2 then f else if r > 1 / 2 then f + 1 else if even f then f else f + 1)"

function bitlen :: "int \<Rightarrow> int" where
  "bitlen n = (if n \<le> 0 then 0 else 1 + bitlen (n div 2))"
  by pat_completeness auto
termination
  by (relation "measure nat") auto

declare bitlen.simps [simp del]

definition pow2 :: "int \<Rightarrow> rat" where
  "pow2 k = (if k \<ge> 0 then 2 ^ nat k else 1 / 2 ^ nat (- k))"

definition floorLog2 :: "rat \<Rightarrow> int" where
  "floorLog2 a =
     (let (p, q) = quotient_of a; d = bitlen p - bitlen q
      in if pow2 d \<le> a then d else d - 1)"

definition toDouble :: "rat \<Rightarrow> rat" where
  "toDouble x =
     (if x = 0 then 0
      else let a = \<bar>x\<bar>; e = floorLog2 a; s = pow2 (52 - e); m = roundHalfEven (a * s)
           in sgn x * of_int m / s)"

definition numDiv :: "rat \<Rightarrow> rat \<Rightarrow> rat" where
  "numDiv a b = toDouble (a / b)"

definition numMul :: "rat \<Rightarrow> rat \<Rightarrow> rat" where
  "numMul a b = toDouble (a * b)"

text \<open>
  \<^verbatim>\<open>Number.prototype.toFixed(f)\<close> on the exact value of a double below \<open>10^21\<close>: the integer
  \<open>n\<close> for which \<open>n / 10^f\<close> is nearest to the magnitude, the larger one of two, printed
  with \<open>f\<close> digits after the point and the sign in front.
\<close>

definition toFixed :: "nat \<Rightarrow> rat \<Rightarrow> string" where
  "toFixed f x =
     (let a = \<bar>x\<bar>;
          n = \<lfloor>a * 10 ^ f + 1 / 2\<rfloor>;
          m = showNat (nat n);
          z = replicate (Suc f - length m) (CHR ''0'') @ m;
          k = length z
      in (if x < 0 then ''-'' else [])
         @ (if f = 0 then m else take (k - f) z @ ''.'' @ drop (k - f) z))"

subsection \<open>Values parsed from the backend's JSON\<close>

text \<open>
  The values that \<^verbatim>\<open>JSON.parse\<close> returns, with integer numbers. An object holds its own
  properties in order; \<^verbatim>\<open>undefined\<close> is \<open>None\<close> of \<^typ>\<open>'a option\<close> where a value may be
  missing.
\<close>

datatype jsval =
    JNull
  | JBool bool
  | JNum int
  | JStr string
  | JArr "jsval list"
  | JObj "(string \<times> jsval) list"

text \<open>Truthiness, and \<^verbatim>\<open>x || d\<close>.\<close>

fun truthy :: "jsval \<Rightarrow> bool" where
  "truthy JNull = False"
| "truthy (JBool b) = b"
| "truthy (JNum n) = (n \<noteq> 0)"
| "truthy (JStr s) = (s \<noteq> [])"
| "truthy (JArr xs) = True"
| "truthy (JObj kv) = True"

definition orElse :: "jsval option \<Rightarrow> jsval \<Rightarrow> jsval" where
  "orElse x d = (case x of None \<Rightarrow> d | Some v \<Rightarrow> if truthy v then v else d)"

text \<open>
  Reading a property of a value that is not \<^verbatim>\<open>null\<close>: an own property of an object; the
  names read by the program are on no prototype, so every other read gives \<^verbatim>\<open>undefined\<close>.
\<close>

fun getProperty :: "jsval \<Rightarrow> string \<Rightarrow> jsval option" where
  "getProperty (JObj kv) name = map_of kv name"
| "getProperty v name = None"

text \<open>
  \<^verbatim>\<open>String(v)\<close>, as a template literal applies it. \<open>None\<close> is the \<^verbatim>\<open>TypeError\<close> raised for an
  object whose own property \<^verbatim>\<open>toString\<close> hides the inherited method: a parsed value is never
  callable, and the inherited \<^verbatim>\<open>valueOf\<close> returns the object itself. A number is printed
  with all its digits, as the program prints an integer of magnitude below \<open>2^53\<close>; the
  program prints larger numbers by their shortest digits, and in exponent notation from
  \<open>10^21\<close>, which is outside this model. Whether the conversion raises does not depend on
  the number.
\<close>

fun ToString :: "jsval \<Rightarrow> string option" where
  "ToString JNull = Some ''null''"
| "ToString (JBool b) = Some (if b then ''true'' else ''false'')"
| "ToString (JNum n) = Some (showInt n)"
| "ToString (JStr s) = Some s"
| "ToString (JArr xs) =
     map_option (joinWith '','')
       (those (map (\<lambda>x. if x = JNull then Some [] else ToString x) xs))"
| "ToString (JObj kv) =
     (if ''toString'' \<in> fst ` set kv then None else Some ''[object Object]'')"

definition ToStringU :: "jsval option \<Rightarrow> string option" where
  "ToStringU x = (case x of None \<Rightarrow> Some ''undefined'' | Some v \<Rightarrow> ToString v)"

text \<open>
  \<^verbatim>\<open>parseInt(x)\<close> on a stored value: the outer \<open>None\<close> is the \<^verbatim>\<open>TypeError\<close> of the string
  conversion, the inner one is \<^verbatim>\<open>NaN\<close>.
\<close>

definition parseIntJs :: "jsval option \<Rightarrow> int option option" where
  "parseIntJs x = map_option parseInt (ToStringU x)"

section \<open>The interview state and the backend\<close>

datatype stage =
    greeting
  | name_prompt
  | jd_selection
  | pre_screen
  | jd_questions
  | closing
  | complete

fun stageName :: "stage \<Rightarrow> string" where
  "stageName greeting = ''greeting''"
| "stageName name_prompt = ''name_prompt''"
| "stageName jd_selection = ''jd_selection''"
| "stageName pre_screen = ''pre_screen''"
| "stageName jd_questions = ''jd_questions''"
| "stageName closing = ''closing''"
| "stageName complete = ''complete''"

datatype role = user | assistant

record InterviewState =
  candidateName :: "string option"
  currentStage :: stage
  jdFileName :: "string option"
  jdContent :: string
  availableJDs :: "string list"
  questionCount :: nat
  maxQuestions :: nat
  responses :: "string \<rightharpoonup> jsval"
  conversationHistory :: "(role \<times> string) list"

text \<open>
  An activity passed to \<^verbatim>\<open>context.sendActivity\<close>; its type is always \<^verbatim>\<open>'message'\<close>. The field
  \<^verbatim>\<open>text\<close> of the program is \<open>msgText\<close> here.
\<close>

record activity =
  msgText :: string
  speak :: string

text \<open>
  What the services outside the program answer during one event. A call of the chat
  completion either raises (a rejected request, or a reply without a first choice) or
  returns the content of the first choice, which may be missing. The blob download raises
  or returns the text of the file. \<^verbatim>\<open>JSON.parse\<close> is a parameter: \<open>None\<close> is its
  \<^verbatim>\<open>SyntaxError\<close>. The prompts sent to the chat completion are not modelled, since no
  reply is assumed to depend on them.
\<close>

datatype 'a reply = Raises | Returns 'a

record backend =
  selectionReply :: "string option reply"
  blobReply :: "string reply"
  nameReply :: "string option reply"
  analysisReply :: "string option reply"
  questionReply :: "string option reply"
  jsonParse :: "string \<Rightarrow> jsval option"

text \<open>The table \<^verbatim>\<open>fixedFlow\<close>.\<close>

fun fixedFlowQuestion :: "stage \<Rightarrow> string option" where
  "fixedFlowQuestion greeting =
     Some ''Hello! Welcome to the KPMG Global Services initial interview. I am your AI interviewer.''"
| "fixedFlowQuestion name_prompt =
     Some ''Thank you for confirming the role. To begin, please tell me your full name.''"
| "fixedFlowQuestion pre_screen =
     Some (''It's a pleasure to meet you, {name}. I have confirmed the Job Description for the role you applied for. ''
       @ ''Before we dive into technical and value-based questions, please summarize your educational background ''
       @ ''and professional experience, focusing on how you meet the job's basic requirements.'')"
| "fixedFlowQuestion closing =
     Some (''Thank you, {name}, for taking the time to complete this interview. Your responses have been recorded ''
       @ ''and will be reviewed by our hiring team. You can expect to hear back from us within 3-5 business days. ''
       @ ''Have a great day!'')"
| "fixedFlowQuestion other = None"

fun fixedFlowNextStage :: "stage \<Rightarrow> stage option" where
  "fixedFlowNextStage greeting = Some jd_selection"
| "fixedFlowNextStage jd_selection = Some name_prompt"
| "fixedFlowNextStage name_prompt = Some pre_screen"
| "fixedFlowNextStage pre_screen = Some jd_questions"
| "fixedFlowNextStage closing = Some complete"
| "fixedFlowNextStage other = None"

section \<open>The handlers\<close>

text \<open>\<^verbatim>\<open>interviewStates\<close>, the map from the sender's id to the state.\<close>

type_synonym store = "string \<rightharpoonup> InterviewState"

text \<open>
  \<^verbatim>\<open>getUserState\<close>. Its first argument is the environment variable \<^verbatim>\<open>AVAILABLE_JDS\<close>.
\<close>

definition getUserState :: "string option \<Rightarrow> store \<Rightarrow> string \<Rightarrow> store \<times> InterviewState" where
  "getUserState AVAILABLE_JDS interviewStates userId =
     (case interviewStates userId of
        Some state \<Rightarrow> (interviewStates, state)
      | None \<Rightarrow>
          (let availableJDs =
                 (case AVAILABLE_JDS of None \<Rightarrow> [] | Some v \<Rightarrow> map trim (splitComma v));
               state = \<lparr> candidateName = None, currentStage = greeting, jdFileName = None,
                         jdContent = [], availableJDs = availableJDs, questionCount = 0,
                         maxQuestions = 5, responses = Map.empty, conversationHistory = [] \<rparr>
           in (interviewStates(userId \<mapsto> state), state)))"

definition fetchJobDescription :: "backend \<Rightarrow> string \<Rightarrow> string" where
  "fetchJobDescription be fileName =
     (case blobReply be of
        Returns downloaded \<Rightarrow> downloaded
      | Raises \<Rightarrow> ''JD Fetch Failed for '' @ fileName
          @ ''. Default Role: Senior Consultant. Key Skills: Leadership, Project Management, Azure.'')"

definition generateSsml :: "string \<Rightarrow> string" where
  "generateSsml t =
     (let sanitizedText =
            replaceAllChar (CHR ''>'') ''&gt;''
              (replaceAllChar (CHR ''<'') ''&lt;''
                (replaceAllChar (CHR ''&'') ''&amp;'' t))
      in ''<speak version='1.0' xmlns='http://www.w3.org/2001/10/synthesis' xml:lang='en-US'>\<newline>''
         @ ''            <prosody rate='medium' pitch='medium'>\<newline>''
         @ ''                '' @ sanitizedText @ ''\<newline>''
         @ ''            </prosody>\<newline>''
         @ ''        </speak>'')"

definition askForJDSelection :: "InterviewState \<Rightarrow> InterviewState \<times> activity list" where
  "askForJDSelection state =
     (let jdList = joinWith '', ''
            (map (\<lambda>(index, name). showNat (index + 1) @ ''. '' @ replace ''.txt'' [] name)
               (enumerate 0 (availableJDs state)));
          questionText = ''We offer interviews for the following roles: '' @ jdList
            @ ''. Please say the number or the name of the role you are here for.''
      in (state\<lparr>conversationHistory := conversationHistory state @ [(assistant, questionText)]\<rparr>,
          [\<lparr>msgText = questionText, speak = generateSsml questionText\<rparr>]))"

definition sendWelcomeMessage :: "string option \<Rightarrow> store \<Rightarrow> string \<Rightarrow> store \<times> activity list" where
  "sendWelcomeMessage AVAILABLE_JDS interviewStates userId =
     (let (states1, state) = getUserState AVAILABLE_JDS interviewStates userId;
          welcomeMessage = the (fixedFlowQuestion greeting);
          state1 = state\<lparr>conversationHistory := conversationHistory state @ [(assistant, welcomeMessage)],
                          currentStage := jd_selection\<rparr>;
          (state2, out) = askForJDSelection state1
      in (states1(userId \<mapsto> state2),
          \<lparr>msgText = welcomeMessage, speak = generateSsml welcomeMessage\<rparr> # out))"

text \<open>
  The handler of \<^verbatim>\<open>onMembersAdded\<close>: one welcome for every added member other than the bot,
  each for the sender of the activity.
\<close>

fun onMembersAdded ::
  "string option \<Rightarrow> string \<Rightarrow> string \<Rightarrow> string list \<Rightarrow> store \<Rightarrow> store \<times> activity list" where
  "onMembersAdded AVAILABLE_JDS userId recipientId [] interviewStates = (interviewStates, [])"
| "onMembersAdded AVAILABLE_JDS userId recipientId (member # members) interviewStates =
     (if member \<noteq> recipientId
      then (let (states1, out1) = sendWelcomeMessage AVAILABLE_JDS interviewStates userId;
                (states2, out2) = onMembersAdded AVAILABLE_JDS userId recipientId members states1
            in (states2, out1 @ out2))
      else onMembersAdded AVAILABLE_JDS userId recipientId members interviewStates)"

definition errorMessage :: string where
  "errorMessage = ''I'm experiencing technical difficulties. Could you please repeat your last response?''"

definition errorSsml :: string where
  "errorSsml =
     ''<speak version='1.0' xmlns='http://www.w3.org/2001/10/synthesis' xml:lang='en-US'>\<newline>''
     @ ''            <prosody rate='medium'>\<newline>''
     @ ''                I'm experiencing some technical difficulties.\<newline>''
     @ ''                <break time='300ms'/>\<newline>''
     @ ''                Could you please repeat?\<newline>''
     @ ''            </prosody>\<newline>''
     @ ''        </speak>''"

definition sendErrorMessage :: "activity list" where
  "sendErrorMessage = [\<lparr>msgText = errorMessage, speak = errorSsml\<rparr>]"

definition handleJDSelection ::
  "backend \<Rightarrow> string \<Rightarrow> InterviewState \<Rightarrow> InterviewState \<times> activity list" where
  "handleJDSelection be userText state =
     (case selectionReply be of
        Raises \<Rightarrow> (state, sendErrorMessage)
      | Returns content \<Rightarrow>
          (let chosenFileName = map_option trim content
           in if chosenFileName \<noteq> None \<and> chosenFileName \<noteq> Some []
                 \<and> chosenFileName \<noteq> Some ''N/A''
                 \<and> the chosenFileName \<in> set (availableJDs state)
              then (let questionText = the (fixedFlowQuestion name_prompt)
                    in (state\<lparr>jdFileName := chosenFileName,
                               jdContent := fetchJobDescription be (the chosenFileName),
                               currentStage := the (fixedFlowNextStage jd_selection),
                               conversationHistory :=
                                 conversationHistory state @ [(assistant, questionText)]\<rparr>,
                        [\<lparr>msgText = questionText, speak = generateSsml questionText\<rparr>]))
              else (let message = ''I couldn't identify that selection. Please select a number between 1 and ''
                          @ showNat (length (availableJDs state)) @ ''.''
                    in (state\<lparr>conversationHistory :=
                                 conversationHistory state @ [(assistant, message)]\<rparr>,
                        [\<lparr>msgText = message, speak = generateSsml message\<rparr>]))))"

definition sendNextQuestion :: "InterviewState \<Rightarrow> InterviewState \<times> activity list" where
  "sendNextQuestion state =
     (let name = (case candidateName state of
                    None \<Rightarrow> ''there'' | Some n \<Rightarrow> if n = [] then ''there'' else n);
          questionText =
            (if currentStage state = pre_screen
             then replace ''{name}'' name (the (fixedFlowQuestion pre_screen))
             else if currentStage state = closing
             then replace ''{name}'' name (the (fixedFlowQuestion closing))
             else [])
      in (state\<lparr>conversationHistory := conversationHistory state @ [(assistant, questionText)]\<rparr>,
          [\<lparr>msgText = questionText, speak = generateSsml questionText\<rparr>]))"

definition clarificationMessage :: string where
  "clarificationMessage =
     ''I apologize, I didn't catch your name. Could you state it clearly? For example: 'My name is John Smith''
     @ [CHR 0x27]"

definition clarificationSsml :: string where
  "clarificationSsml =
     ''<speak version='1.0' xmlns='http://www.w3.org/2001/10/synthesis' xml:lang='en-US'>\<newline>''
     @ ''            <prosody rate='medium'>\<newline>''
     @ ''                I apologize, I didn't quite catch your full name.\<newline>''
     @ ''                <break time='300ms'/>\<newline>''
     @ ''                Could you please state it clearly?\<newline>''
     @ ''            </prosody>\<newline>''
     @ ''        </speak>''"

definition sendNameClarification :: "InterviewState \<Rightarrow> InterviewState \<times> activity list" where
  "sendNameClarification state =
     (state\<lparr>conversationHistory :=
              conversationHistory state @ [(assistant, clarificationMessage)]\<rparr>,
      [\<lparr>msgText = clarificationMessage, speak = clarificationSsml\<rparr>])"

definition handleNameExtraction ::
  "backend \<Rightarrow> string \<Rightarrow> InterviewState \<Rightarrow> InterviewState \<times> activity list" where
  "handleNameExtraction be userText state =
     (case nameReply be of
        Raises \<Rightarrow> sendNameClarification state
      | Returns content \<Rightarrow>
          (let name = map_option trim content;
               cleanName = map_option (filter (\<lambda>c. c \<noteq> CHR 0x27 \<and> c \<noteq> CHR 0x22)) name;
               normalizedName =
                 (if map_option toUpperCase cleanName \<noteq> Some ''N/A'' then cleanName else None)
           in if normalizedName \<noteq> None \<and> normalizedName \<noteq> Some []
              then sendNextQuestion
                     (state\<lparr>candidateName := normalizedName,
                            currentStage := the (fixedFlowNextStage name_prompt)\<rparr>)
              else sendNameClarification state))"

definition generateDynamicQuestion :: "backend \<Rightarrow> InterviewState \<Rightarrow> string" where
  "generateDynamicQuestion be state =
     (let currentQNum = questionCount state + 1
      in case questionReply be of
           Raises \<Rightarrow> ''For question '' @ showNat currentQNum
             @ '', tell me about a relevant project from your experience.''
         | Returns content \<Rightarrow>
             (let questionText = map_option trim content
              in if questionText = None \<or> questionText = Some []
                    \<or> length (the questionText) < 20
                 then ''For question '' @ showNat currentQNum
                   @ '', describe a complex challenge you solved that aligns with the role.''
                 else the questionText))"

text \<open>
  \<^verbatim>\<open>handleGPTResponseAnalysis\<close>. Everything that raises inside its \<^verbatim>\<open>try\<close> does so before the
  first write to \<^verbatim>\<open>responses\<close>: the request, the reading of the first choice, \<^verbatim>\<open>JSON.parse\<close>,
  and the first property read when the parsed value is \<^verbatim>\<open>null\<close>.
\<close>

definition stageLabel :: "InterviewState \<Rightarrow> string" where
  "stageLabel state =
     (if currentStage state = jd_questions then ''jd_q'' @ showNat (questionCount state + 1)
      else stageName (currentStage state))"

definition gptAnalysisOf :: "backend \<Rightarrow> jsval option" where
  "gptAnalysisOf be =
     (case analysisReply be of
        Raises \<Rightarrow> None
      | Returns content \<Rightarrow>
          (case jsonParse be
                  (case content of None \<Rightarrow> ''{}'' | Some c \<Rightarrow> if c = [] then ''{}'' else c) of
             None \<Rightarrow> None
           | Some JNull \<Rightarrow> None
           | Some v \<Rightarrow> Some v))"

definition handleGPTResponseAnalysis ::
  "backend \<Rightarrow> string \<Rightarrow> InterviewState \<Rightarrow> InterviewState" where
  "handleGPTResponseAnalysis be userText state =
     (let stage = stageLabel state;
          state1 =
            (case gptAnalysisOf be of
               Some gptAnalysis \<Rightarrow>
                 state\<lparr>responses := (responses state)
                   (stage @ ''_gpt_summary'' \<mapsto>
                      orElse (getProperty gptAnalysis ''Summary'') (JStr ''Summary pending.''),
                    stage @ ''_clarity_score'' \<mapsto>
                      orElse (getProperty gptAnalysis ''ClarityScore'') (JStr ''N/A''),
                    stage @ ''_relevance_score'' \<mapsto>
                      orElse (getProperty gptAnalysis ''RelevanceScore'') (JStr ''N/A''),
                    stage @ ''_entities'' \<mapsto>
                      orElse (getProperty gptAnalysis ''ExtractedEntities'') (JArr []))\<rparr>
             | None \<Rightarrow>
                 state\<lparr>responses := (responses state)
                   (stage @ ''_gpt_summary'' \<mapsto> JStr ''Analysis failed.'',
                    stage @ ''_entities'' \<mapsto> JArr [])\<rparr>)
      in if currentStage state = jd_questions
         then state1\<lparr>questionCount := questionCount state1 + 1\<rparr>
         else state1)"

definition askNextDynamicQuestion ::
  "backend \<Rightarrow> InterviewState \<Rightarrow> InterviewState \<times> activity list" where
  "askNextDynamicQuestion be state =
     (let questionText = generateDynamicQuestion be state
      in (state\<lparr>conversationHistory := conversationHistory state @ [(assistant, questionText)]\<rparr>,
          [\<lparr>msgText = questionText, speak = generateSsml questionText\<rparr>]))"

subsection \<open>Completing the interview\<close>

text \<open>
  One element of \<^verbatim>\<open>extractedEntities.map(...)\<close>: reading \<^verbatim>\<open>e.text\<close> raises a \<^verbatim>\<open>TypeError\<close>
  when the element is \<^verbatim>\<open>null\<close>.
\<close>

definition entityText :: "jsval \<Rightarrow> string option" where
  "entityText e =
     (if e = JNull then None
      else do {
        t \<leftarrow> ToStringU (getProperty e ''text'');
        n \<leftarrow> ToStringU (getProperty e ''entity'');
        Some (t @ '' ('' @ n @ '')'')
      })"

definition scoreOrNA :: "int option \<Rightarrow> string" where
  "scoreOrNA score = (case score of None \<Rightarrow> ''N/A'' | Some n \<Rightarrow> if n = 0 then ''N/A'' else showInt n)"

text \<open>
  The stages reported: \<^verbatim>\<open>pre_screen\<close>, then \<^verbatim>\<open>jd_q1\<close> to \<^verbatim>\<open>jd_q\<close>\<open>maxQuestions\<close>.
\<close>

definition reportStages :: "nat \<Rightarrow> string list" where
  "reportStages maxQ = ''pre_screen'' # map (\<lambda>i. ''jd_q'' @ showNat i) [1..<Suc maxQ]"

text \<open>
  The loop over the stages, with the totals, the number of valid scores and the report
  built so far. \<open>None\<close> is a \<^verbatim>\<open>TypeError\<close> raised in an iteration, which leaves the function.
\<close>

fun reportLoop ::
  "(string \<rightharpoonup> jsval) \<Rightarrow> string list \<Rightarrow> int \<times> int \<times> nat \<times> string
     \<Rightarrow> (int \<times> int \<times> nat \<times> string) option" where
  "reportLoop rs [] acc = Some acc"
| "reportLoop rs (stage # rest) (totalClarityScore, totalRelevanceScore, validScores, detailedReport) =
     do {
       clarity \<leftarrow> parseIntJs (rs (stage @ ''_clarity_score''));
       relevance \<leftarrow> parseIntJs (rs (stage @ ''_relevance_score''));
       gptSummary \<leftarrow> ToString (orElse (rs (stage @ ''_gpt_summary'')) (JStr ''No data.''));
       entityList \<leftarrow>
         (case rs (stage @ ''_entities'') of
            Some (JArr extractedEntities) \<Rightarrow>
              map_option (joinWith '', '') (those (map entityText extractedEntities))
          | _ \<Rightarrow> Some ''No structured data.'');
       reportLoop rs rest
         (if clarity \<noteq> None \<and> relevance \<noteq> None
          then totalClarityScore + the clarity else totalClarityScore,
          if clarity \<noteq> None \<and> relevance \<noteq> None
          then totalRelevanceScore + the relevance else totalRelevanceScore,
          if clarity \<noteq> None \<and> relevance \<noteq> None
          then validScores + 1 else validScores,
          detailedReport
            @ (if stage = ''pre_screen''
               then ''\<newline>--- Initial Screening ---\<newline>''
               else ''\<newline>--- Question '' @ [last stage] @ '' ---\<newline>'')
            @ ''Summary: '' @ gptSummary @ ''\<newline>''
            @ ''Clarity/Relevance: '' @ scoreOrNA clarity @ ''/'' @ scoreOrNA relevance @ ''\<newline>''
            @ ''Entities: '' @ entityList @ ''\<newline>'')
     }"

definition avgClarityOf :: "int \<Rightarrow> nat \<Rightarrow> string" where
  "avgClarityOf totalClarityScore validScores =
     (if validScores > 0 then toFixed 1 (numDiv (of_int totalClarityScore) (of_nat validScores))
      else ''N/A'')"

definition avgRelevanceOf :: "int \<Rightarrow> nat \<Rightarrow> string" where
  "avgRelevanceOf totalRelevanceScore validScores =
     (if validScores > 0 then toFixed 1 (numDiv (of_int totalRelevanceScore) (of_nat validScores))
      else ''N/A'')"

definition overallScoreOf :: "int \<Rightarrow> int \<Rightarrow> nat \<Rightarrow> string" where
  "overallScoreOf totalClarityScore totalRelevanceScore validScores =
     (if validScores > 0
      then toFixed 0
             (numMul
                (numDiv
                   (numDiv (of_int (totalClarityScore + totalRelevanceScore))
                      (of_nat (validScores * 2)))
                   5)
                100)
      else ''N/A'')"

definition summaryTextOf :: "InterviewState \<Rightarrow> int \<times> int \<times> nat \<times> string \<Rightarrow> string" where
  "summaryTextOf state totals =
     (case totals of (totalClarityScore, totalRelevanceScore, validScores, detailedReport) \<Rightarrow>
        trim (''\<newline>Interview Summary for ''
          @ (case candidateName state of
               None \<Rightarrow> ''Candidate'' | Some n \<Rightarrow> if n = [] then ''Candidate'' else n)
          @ '':\<newline>\<newline>--- Final Assessment ---\<newline>Role: ''
          @ (case jdFileName state of
               None \<Rightarrow> ''N/A''
             | Some f \<Rightarrow> if replace ''.txt'' [] f = [] then ''N/A'' else replace ''.txt'' [] f)
          @ ''\<newline>Questions Answered: '' @ showNat (questionCount state)
          @ ''\<newline>\<newline>Average Clarity: **'' @ avgClarityOf totalClarityScore validScores @ ''/5**''
          @ ''\<newline>Average Relevance: **'' @ avgRelevanceOf totalRelevanceScore validScores @ ''/5**''
          @ ''\<newline>Qualification Score: **''
          @ overallScoreOf totalClarityScore totalRelevanceScore validScores @ ''%**''
          @ ''\<newline>\<newline>'' @ detailedReport
          @ ''\<newline>\<newline>Your responses will be reviewed by the KPMG hiring team. Thank you!\<newline>        ''))"

definition finalSsmlOf :: "InterviewState \<Rightarrow> int \<times> int \<times> nat \<times> string \<Rightarrow> string" where
  "finalSsmlOf state totals =
     (case totals of (totalClarityScore, totalRelevanceScore, validScores, detailedReport) \<Rightarrow>
        ''<speak version='1.0' xmlns='http://www.w3.org/2001/10/synthesis' xml:lang='en-US'>\<newline>''
        @ ''            <prosody rate='medium'>\<newline>''
        @ ''                Interview completed, ''
        @ (case candidateName state of None \<Rightarrow> ''undefined'' | Some n \<Rightarrow> n) @ ''. \<newline>''
        @ ''                Your score is ''
        @ overallScoreOf totalClarityScore totalRelevanceScore validScores @ '' percent.\<newline>''
        @ ''                Thank you for your time!\<newline>''
        @ ''            </prosody>\<newline>''
        @ ''        </speak>'')"

text \<open>
  What a handler called by the dispatcher leaves behind: the state object, the activities
  sent, whether it raised, and whether it deleted the entry of the sender from
  \<^verbatim>\<open>interviewStates\<close>.
\<close>

record handled =
  session :: InterviewState
  sent :: "activity list"
  threw :: bool
  removed :: bool

text \<open>
  \<^verbatim>\<open>completeInterview\<close> sets the stage first. When the loop raises, nothing else has happened;
  otherwise the summary is sent, pushed to the history, and the entry is deleted.
\<close>

definition completeInterview :: "InterviewState \<Rightarrow> handled" where
  "completeInterview state0 =
     (let state = state0\<lparr>currentStage := complete\<rparr>
      in case reportLoop (responses state) (reportStages (maxQuestions state)) (0, 0, 0, []) of
           None \<Rightarrow> \<lparr>session = state, sent = [], threw = True, removed = False\<rparr>
         | Some totals \<Rightarrow>
             (let summaryText = summaryTextOf state totals;
                  finalSsml = finalSsmlOf state totals
              in \<lparr>session = state\<lparr>conversationHistory :=
                               conversationHistory state @ [(assistant, summaryText)]\<rparr>,
                  sent = [\<lparr>msgText = summaryText, speak = finalSsml\<rparr>],
                  threw = False, removed = True\<rparr>))"

subsection \<open>The dispatcher\<close>

definition noSpeechMessage :: string where
  "noSpeechMessage = ''I didn't receive any speech. Could you please speak up?''"

definition completedMessage :: string where
  "completedMessage = ''Your interview has been completed. Thank you!''"

definition unknownStateMessage :: string where
  "unknownStateMessage =
     ''I seem to be in an unknown state. Let's restart the interview. Please refresh if this persists.''"

definition kept :: "InterviewState \<times> activity list \<Rightarrow> handled" where
  "kept r = \<lparr>session = fst r, sent = snd r, threw = False, removed = False\<rparr>"

text \<open>The body of the \<^verbatim>\<open>try\<close> in \<^verbatim>\<open>processUserMessage\<close>.\<close>

definition dispatch :: "backend \<Rightarrow> string \<Rightarrow> InterviewState \<Rightarrow> handled" where
  "dispatch be userText state =
     (if currentStage state = jd_selection then kept (handleJDSelection be userText state)
      else if currentStage state = name_prompt then kept (handleNameExtraction be userText state)
      else if currentStage state = pre_screen then
        (let state1 = state\<lparr>responses :=
                         (responses state)(''pre_screen_raw_response'' \<mapsto> JStr userText)\<rparr>;
             state2 = handleGPTResponseAnalysis be userText state1;
             state3 = state2\<lparr>currentStage := the (fixedFlowNextStage pre_screen)\<rparr>
         in kept (askNextDynamicQuestion be state3))
      else if currentStage state = jd_questions then
        (let state1 = state\<lparr>responses :=
                         (responses state)
                           (''jd_q'' @ showNat (questionCount state + 1) @ ''_raw_response''
                              \<mapsto> JStr userText)\<rparr>;
             state2 = handleGPTResponseAnalysis be userText state1
         in if questionCount state2 < maxQuestions state2
            then kept (askNextDynamicQuestion be state2)
            else kept (sendNextQuestion (state2\<lparr>currentStage := closing\<rparr>)))
      else if currentStage state = closing then completeInterview state
      else if currentStage state = complete then
        kept (state, [\<lparr>msgText = completedMessage, speak = generateSsml completedMessage\<rparr>])
      else
        kept (state, [\<lparr>msgText = unknownStateMessage, speak = generateSsml unknownStateMessage\<rparr>]))"

text \<open>
  One inbound turn on the state object of the sender, for a text that is not empty after
  trimming: the utterance is pushed to the history, the stage handler runs, and what it
  raises is answered by \<^verbatim>\<open>sendErrorMessage\<close>.
\<close>

definition processTurn :: "backend \<Rightarrow> string \<Rightarrow> InterviewState \<Rightarrow> handled" where
  "processTurn be userText state =
     (let state1 = state\<lparr>conversationHistory := conversationHistory state @ [(user, userText)]\<rparr>;
          h = dispatch be userText state1
      in if threw h then h\<lparr>sent := sent h @ sendErrorMessage\<rparr> else h)"

text \<open>
  \<^verbatim>\<open>processUserMessage\<close>: the text of the activity may be missing. The state is looked up, and
  created when the sender has none, before the text is examined.
\<close>

definition processUserMessage ::
  "string option \<Rightarrow> backend \<Rightarrow> store \<Rightarrow> string \<Rightarrow> string option \<Rightarrow> store \<times> activity list" where
  "processUserMessage AVAILABLE_JDS be interviewStates userId activityText =
     (let userText = map_option trim activityText;
          (states1, state) = getUserState AVAILABLE_JDS interviewStates userId
      in if userText = None \<or> userText = Some []
         then (states1, [\<lparr>msgText = noSpeechMessage, speak = generateSsml noSpeechMessage\<rparr>])
         else (let h = processTurn be (the userText) state
               in (if removed h then states1(userId := None)
                   else states1(userId \<mapsto> session h),
                   sent h)))"

section \<open>Sessions over time\<close>

text \<open>
  The events that reach the bot for one sender: a participant joined (the bot runs
  \<^verbatim>\<open>sendWelcomeMessage\<close>), or an inbound message with what the backend answers while it is
  processed.
\<close>

datatype event = Joined | Inbound "string option" backend

fun step :: "string option \<Rightarrow> string \<Rightarrow> store \<Rightarrow> event \<Rightarrow> store" where
  "step AVAILABLE_JDS userId interviewStates Joined =
     fst (sendWelcomeMessage AVAILABLE_JDS interviewStates userId)"
| "step AVAILABLE_JDS userId interviewStates (Inbound activityText be) =
     fst (processUserMessage AVAILABLE_JDS be interviewStates userId activityText)"

definition run :: "string option \<Rightarrow> string \<Rightarrow> event list \<Rightarrow> store \<Rightarrow> store" where
  "run AVAILABLE_JDS userId events interviewStates =
     foldl (step AVAILABLE_JDS userId) interviewStates events"

fun isInbound :: "event \<Rightarrow> bool" where
  "isInbound Joined = False"
| "isInbound (Inbound activityText be) = True"

text \<open>The sender has no state yet, or one whose stage is \<^verbatim>\<open>greeting\<close>.\<close>

definition atGreeting :: "store \<Rightarrow> string \<Rightarrow> bool" where
  "atGreeting interviewStates userId =
     (case interviewStates userId of
        None \<Rightarrow> True
      | Some state \<Rightarrow> currentStage state = greeting)"

text \<open>The text of an activity is missing, empty, or white space only.\<close>

definition blank :: "string option \<Rightarrow> bool" where
  "blank activityText =
     (case activityText of None \<Rightarrow> True | Some t \<Rightarrow> list_all isWhiteSpace t)"

text \<open>The order of the stages in the interview skeleton.\<close>

fun stageRank :: "stage \<Rightarrow> nat" where
  "stageRank greeting = 0"
| "stageRank jd_selection = 1"
| "stageRank name_prompt = 2"
| "stageRank pre_screen = 3"
| "stageRank jd_questions = 4"
| "stageRank closing = 5"
| "stageRank complete = 6"

text \<open>A backend on which every request fails, used in the examples.\<close>

definition failing :: backend where
  "failing = \<lparr>selectionReply = Raises, blobReply = Raises, nameReply = Raises,
              analysisReply = Raises, questionReply = Raises, jsonParse = (\<lambda>s. None)\<rparr>"

text \<open>An environment variable and states used in the examples.\<close>

definition exampleJDs :: "string option" where
  "exampleJDs = Some ''analyst.txt, auditor.txt''"

definition exampleState :: "stage \<Rightarrow> InterviewState" where
  "exampleState st = (snd (getUserState exampleJDs Map.empty ''u1''))\<lparr>currentStage := st\<rparr>"

text \<open>
  The reply of the selection call is taken: a content that after trimming is not empty,
  is not \<^verbatim>\<open>N/A\<close>, and is one of the available files.
\<close>

definition accepts :: "InterviewState \<Rightarrow> string option reply \<Rightarrow> bool" where
  "accepts state r =
     (case r of
        Returns (Some c) \<Rightarrow> trim c \<noteq> [] \<and> trim c \<noteq> ''N/A'' \<and> trim c \<in> set (availableJDs state)
      | _ \<Rightarrow> False)"

text \<open>
  The assessment call fails: the request raises, or its content (\<^verbatim>\<open>{}\<close> when missing or
  empty) does not parse.
\<close>

definition analysisFails :: "backend \<Rightarrow> bool" where
  "analysisFails be =
     (case analysisReply be of
        Raises \<Rightarrow> True
      | Returns content \<Rightarrow>
          jsonParse be (case content of None \<Rightarrow> ''{}'' | Some c \<Rightarrow> if c = [] then ''{}'' else c)
            = None)"

text \<open>A backend that answers the selection call with a given content.\<close>

definition choosing :: "string \<Rightarrow> backend" where
  "choosing c = failing\<lparr>selectionReply := Returns (Some c)\<rparr>"

text \<open>
  The markup that the claim about spoken markup describes: the text with \<^verbatim>\<open>&\<close>, \<^verbatim>\<open><\<close> and
  \<^verbatim>\<open>>\<close> escaped, one character at a time, between the opening and closing tags. An activity
  is derived when its \<^verbatim>\<open>speak\<close> is this markup of its text. It is hand-written when it is
  one of the three activities whose markup the program writes out separately: the message
  about technical difficulties, the request to repeat the name, and the final summary.
\<close>

definition escapeChar :: "char \<Rightarrow> string" where
  "escapeChar c =
     (if c = CHR ''&'' then ''&amp;''
      else if c = CHR ''<'' then ''&lt;''
      else if c = CHR ''>'' then ''&gt;''
      else [c])"

definition escaped :: "string \<Rightarrow> string" where
  "escaped t = concat (map escapeChar t)"

definition ssmlOpen :: string where
  "ssmlOpen =
     ''<speak version='1.0' xmlns='http://www.w3.org/2001/10/synthesis' xml:lang='en-US'>\<newline>''
     @ ''            <prosody rate='medium' pitch='medium'>\<newline>''
     @ ''                ''"

definition ssmlClose :: string where
  "ssmlClose = ''\<newline>            </prosody>\<newline>        </speak>''"

definition derived :: "activity \<Rightarrow> bool" where
  "derived a \<longleftrightarrow> speak a = ssmlOpen @ escaped (msgText a) @ ssmlClose"


text \<open>
  Backends and events of an example interview. The backend \<open>answering\<close> selects the first
  file, extracts a name, and fails on assessment and question generation; \<open>nullEntity\<close>
  answers the assessment with an object whose list of entities holds \<^verbatim>\<open>null\<close>.
\<close>

definition nullEntityJson :: string where
  "nullEntityJson = ''{'' @ [CHR 0x22] @ ''ExtractedEntities'' @ [CHR 0x22] @ '':[null]}''"

definition answering :: backend where
  "answering =
     \<lparr>selectionReply = Returns (Some ''analyst.txt''), blobReply = Raises,
      nameReply = Returns (Some ''Ada Lovelace''),
      analysisReply = Raises, questionReply = Raises,
      jsonParse = (\<lambda>s. if s = nullEntityJson
                        then Some (JObj [(''ExtractedEntities'', JArr [JNull])]) else None)\<rparr>"

definition nullEntity :: backend where
  "nullEntity = answering\<lparr>analysisReply := Returns (Some nullEntityJson)\<rparr>"

text \<open>The name extraction returns a name that is kept.\<close>

definition namesCandidate :: "backend \<Rightarrow> bool" where
  "namesCandidate be =
     (case nameReply be of
        Returns (Some c) \<Rightarrow>
          filter (\<lambda>c. c \<noteq> CHR 0x27 \<and> c \<noteq> CHR 0x22) (trim c) \<noteq> []
          \<and> toUpperCase (filter (\<lambda>c. c \<noteq> CHR 0x27 \<and> c \<noteq> CHR 0x22) (trim c)) \<noteq> ''N/A''
      | _ \<Rightarrow> False)"

text \<open>
  The sender has a state with the given files, stage and counter, and five questions at
  most, as every state created by \<^verbatim>\<open>getUserState\<close> has.
\<close>

definition sessionAt :: "store \<Rightarrow> string \<Rightarrow> string list \<Rightarrow> stage \<Rightarrow> nat \<Rightarrow> bool" where
  "sessionAt interviewStates userId files st n =
     (case interviewStates userId of
        None \<Rightarrow> False
      | Some state \<Rightarrow>
          currentStage state = st \<and> questionCount state = n \<and> maxQuestions state = 5
          \<and> availableJDs state = files)"

text \<open>The files that \<^verbatim>\<open>getUserState\<close> reads from the environment variable.\<close>

definition configured :: "string option \<Rightarrow> string list" where
  "configured AVAILABLE_JDS = (case AVAILABLE_JDS of None \<Rightarrow> [] | Some v \<Rightarrow> map trim (splitComma v))"

text \<open>
  An interview up to the closing prompt, with a separate backend for the last answer, and
  the same interview followed by a second participant-joined event and a second pass.
\<close>

definition interviewEvents :: "backend \<Rightarrow> backend \<Rightarrow> event list" where
  "interviewEvents be lastly =
     [Joined,
      Inbound (Some ''the first one'') be,
      Inbound (Some ''I am Ada Lovelace'') be,
      Inbound (Some ''I studied mathematics'') be,
      Inbound (Some ''answer one'') be,
      Inbound (Some ''answer two'') be,
      Inbound (Some ''answer three'') be,
      Inbound (Some ''answer four'') be,
      Inbound (Some ''answer five'') lastly]"

definition restartEvents :: "event list" where
  "restartEvents =
     interviewEvents answering answering
     @ [Joined,
        Inbound (Some ''the first one'') answering,
        Inbound (Some ''I am Ada Lovelace'') answering,
        Inbound (Some ''I studied mathematics'') answering,
        Inbound (Some ''answer six'') answering]"

text \<open>
  The counter is within the budget, and strictly below it before \<^verbatim>\<open>closing\<close>.
\<close>

definition withinBudget :: "InterviewState \<Rightarrow> bool" where
  "withinBudget state \<longleftrightarrow>
     questionCount state \<le> maxQuestions state
     \<and> (stageRank (currentStage state) < stageRank closing \<longrightarrow>
          questionCount state < maxQuestions state)"

definition storeWithinBudget :: "store \<Rightarrow> string \<Rightarrow> bool" where
  "storeWithinBudget interviewStates userId =
     (case interviewStates userId of None \<Rightarrow> True | Some state \<Rightarrow> withinBudget state)"

text \<open>
  The example interview in which the assessment of the fifth answer holds a \<^verbatim>\<open>null\<close> entity,
  and a state at \<^verbatim>\<open>closing\<close> whose recorded entities of the first stage hold one.
\<close>

definition faultEvents :: "event list" where
  "faultEvents = interviewEvents answering nullEntity"

definition faulty :: InterviewState where
  "faulty = (exampleState closing)\<lparr>responses := [''pre_screen_entities'' \<mapsto> JArr [JNull]]\<rparr>"

section \<open>Properties\<close>

subsection \<open>Blank text and the lookup of the state\<close>

lemma trim_empty_iff: "trim t = [] \<longleftrightarrow> list_all isWhiteSpace t"
proof
  assume "trim t = []"
  then have a: "\<forall>x \<in> set (dropWhile isWhiteSpace t). isWhiteSpace x"
    by (simp add: trim_def)
  show "list_all isWhiteSpace t"
  proof (rule ccontr)
    assume "\<not> list_all isWhiteSpace t"
    then have ne: "dropWhile isWhiteSpace t \<noteq> []" by (simp add: list_all_iff)
    then have "\<not> isWhiteSpace (hd (dropWhile isWhiteSpace t))" by (rule hd_dropWhile)
    moreover have "hd (dropWhile isWhiteSpace t) \<in> set (dropWhile isWhiteSpace t)"
      using ne by simp
    ultimately show False using a by blast
  qed
next
  assume "list_all isWhiteSpace t"
  then have d: "dropWhile isWhiteSpace t = []" by (simp add: list_all_iff)
  show "trim t = []" unfolding trim_def d by simp
qed

lemma blank_iff: "blank a \<longleftrightarrow> map_option trim a = None \<or> map_option trim a = Some []"
  by (cases a) (simp_all add: blank_def trim_empty_iff)

lemma processUserMessage_blank:
  "blank a \<Longrightarrow> processUserMessage cfg be st uid a =
     (fst (getUserState cfg st uid),
      [\<lparr>msgText = noSpeechMessage, speak = generateSsml noSpeechMessage\<rparr>])"
  by (simp add: processUserMessage_def blank_iff Let_def split: prod.splits)

lemma processUserMessage_text:
  "\<not> blank a \<Longrightarrow> processUserMessage cfg be st uid a =
     (let h = processTurn be (trim (the a)) (snd (getUserState cfg st uid))
      in (if removed h then (fst (getUserState cfg st uid))(uid := None)
          else (fst (getUserState cfg st uid))(uid \<mapsto> session h), sent h))"
  by (cases a) (auto simp add: processUserMessage_def blank_iff Let_def split: prod.splits)

lemma getUserState_existing: "st uid = Some s \<Longrightarrow> getUserState cfg st uid = (st, s)"
  by (simp add: getUserState_def)

lemma getUserState_atGreeting:
  "atGreeting st uid \<Longrightarrow>
     currentStage (snd (getUserState cfg st uid)) = greeting
     \<and> fst (getUserState cfg st uid) uid = Some (snd (getUserState cfg st uid))"
  by (cases "st uid") (simp_all add: getUserState_def Let_def atGreeting_def)

subsection \<open>The stage \<^verbatim>\<open>greeting\<close>\<close>

lemma processTurn_greeting:
  "currentStage s = greeting \<Longrightarrow> processTurn be t s =
     \<lparr>session = s\<lparr>conversationHistory := conversationHistory s @ [(user, t)]\<rparr>,
      sent = [\<lparr>msgText = unknownStateMessage, speak = generateSsml unknownStateMessage\<rparr>],
      threw = False, removed = False\<rparr>"
  by (simp add: processTurn_def dispatch_def kept_def Let_def)

lemma inbound_keeps_greeting:
  assumes "atGreeting st uid"
  shows "atGreeting (fst (processUserMessage cfg be st uid a)) uid"
proof (cases "blank a")
  case True
  then show ?thesis using assms getUserState_atGreeting[of st uid cfg]
    by (simp add: processUserMessage_blank atGreeting_def)
next
  case False
  then show ?thesis using assms getUserState_atGreeting[of st uid cfg]
    by (simp add: processUserMessage_text processTurn_greeting atGreeting_def Let_def)
qed

lemma run_keeps_greeting:
  "list_all isInbound events \<Longrightarrow> atGreeting st uid \<Longrightarrow> atGreeting (run cfg uid events st) uid"
proof (induction events arbitrary: st)
  case Nil
  then show ?case by (simp add: run_def)
next
  case (Cons e es)
  then obtain a be where e: "e = Inbound a be" by (cases e) auto
  have "atGreeting (step cfg uid st e) uid"
    using Cons.prems(2) e by (simp add: inbound_keeps_greeting)
  then have "atGreeting (run cfg uid es (step cfg uid st e)) uid" using Cons by simp
  then show ?case by (simp add: run_def)
qed

lemma welcome_stage:
  "\<exists>s. fst (sendWelcomeMessage cfg st uid) uid = Some s \<and> currentStage s = jd_selection"
  by (simp add: sendWelcomeMessage_def askForJDSelection_def Let_def split: prod.splits)

text \<open>
  C10. A sender whose state is at \<^verbatim>\<open>greeting\<close>, or who has none yet so that \<^verbatim>\<open>getUserState\<close>
  creates one there, sends a text that is not blank: no branch of the dispatcher matches,
  the only activity sent is the notice of the unknown state, and the stage is still
  \<^verbatim>\<open>greeting\<close>. The same holds after any sequence of inbound messages, so text alone never
  leaves \<^verbatim>\<open>greeting\<close>; the welcome sent when a participant joins moves the stage to
  \<^verbatim>\<open>jd_selection\<close>.
\<close>

theorem greeting_left_only_by_welcome:
  "(atGreeting st uid \<and> \<not> blank (Some t) \<longrightarrow>
      snd (processUserMessage cfg be st uid (Some t))
        = [\<lparr>msgText = unknownStateMessage, speak = generateSsml unknownStateMessage\<rparr>]
      \<and> (\<exists>s. fst (processUserMessage cfg be st uid (Some t)) uid = Some s
             \<and> currentStage s = greeting))
   \<and> (atGreeting st uid \<and> list_all isInbound events \<longrightarrow> atGreeting (run cfg uid events st) uid)
   \<and> (\<exists>s. fst (sendWelcomeMessage cfg st uid) uid = Some s \<and> currentStage s = jd_selection)"
proof (intro conjI impI)
  assume a: "atGreeting st uid \<and> \<not> blank (Some t)"
  then show "snd (processUserMessage cfg be st uid (Some t))
        = [\<lparr>msgText = unknownStateMessage, speak = generateSsml unknownStateMessage\<rparr>]"
    using getUserState_atGreeting[of st uid cfg]
    by (simp add: processUserMessage_text processTurn_greeting Let_def)
  show "\<exists>s. fst (processUserMessage cfg be st uid (Some t)) uid = Some s
          \<and> currentStage s = greeting"
    using a getUserState_atGreeting[of st uid cfg]
    by (simp add: processUserMessage_text processTurn_greeting Let_def)
next
  assume "atGreeting st uid \<and> list_all isInbound events"
  then show "atGreeting (run cfg uid events st) uid" by (simp add: run_keeps_greeting)
next
  show "\<exists>s. fst (sendWelcomeMessage cfg st uid) uid = Some s \<and> currentStage s = jd_selection"
    by (rule welcome_stage)
qed

theorem greeting_left_only_by_welcome_witness:
  "snd (processUserMessage None failing Map.empty ''u1'' (Some ''hello''))
        = [\<lparr>msgText = unknownStateMessage, speak = generateSsml unknownStateMessage\<rparr>]
   \<and> (\<exists>s. fst (processUserMessage None failing Map.empty ''u1'' (Some ''hello'')) ''u1'' = Some s
             \<and> currentStage s = greeting)
   \<and> atGreeting
        (run None ''u1'' [Inbound (Some ''hello'') failing, Inbound None failing] Map.empty) ''u1''"
proof -
  have h1: "atGreeting Map.empty ''u1''" by (simp add: atGreeting_def)
  have h2: "\<not> blank (Some ''hello'')" by (simp add: blank_def isWhiteSpace_def)
  have h3: "list_all isInbound [Inbound (Some ''hello'') failing, Inbound None failing]" by simp
  show ?thesis
    using greeting_left_only_by_welcome
      [of Map.empty "''u1''" "''hello''" None failing
          "[Inbound (Some ''hello'') failing, Inbound None failing]"]
      h1 h2 h3
    by simp
qed

subsection \<open>Blank text\<close>

text \<open>
  C6. For a sender who has a state, in any stage, an inbound activity whose text is
  missing, empty or white space only is answered by exactly one activity, the request to
  speak up, and \<^verbatim>\<open>interviewStates\<close> is what it was: the stage, the responses and the history
  of the state are untouched.
\<close>

theorem blank_text_changes_nothing:
  assumes "interviewStates userId = Some state" and "blank activityText"
  shows "processUserMessage cfg be interviewStates userId activityText =
           (interviewStates,
            [\<lparr>msgText = noSpeechMessage, speak = generateSsml noSpeechMessage\<rparr>])"
  using assms by (simp add: processUserMessage_blank getUserState_existing)

theorem blank_text_changes_nothing_witness:
  "processUserMessage None failing [''u1'' \<mapsto> exampleState jd_questions] ''u1'' (Some ''  '') =
     ([''u1'' \<mapsto> exampleState jd_questions],
      [\<lparr>msgText = noSpeechMessage, speak = generateSsml noSpeechMessage\<rparr>])"
proof -
  have h1: "[''u1'' \<mapsto> exampleState jd_questions] ''u1'' = Some (exampleState jd_questions)" by simp
  have h2: "blank (Some ''  '')" by (simp add: blank_def isWhiteSpace_def)
  show ?thesis
    using blank_text_changes_nothing
      [of "[''u1'' \<mapsto> exampleState jd_questions]" "''u1''" "exampleState jd_questions"
          "Some ''  ''" None failing] h1 h2
    by simp
qed

subsection \<open>The stage moves forward\<close>

lemma handleGPT_stage [simp]:
  "currentStage (handleGPTResponseAnalysis be t s) = currentStage s"
  by (simp add: handleGPTResponseAnalysis_def Let_def split: option.splits)

lemma handleGPT_max [simp]:
  "maxQuestions (handleGPTResponseAnalysis be t s) = maxQuestions s"
  by (simp add: handleGPTResponseAnalysis_def Let_def split: option.splits)

lemma handleGPT_count [simp]:
  "questionCount (handleGPTResponseAnalysis be t s) =
     (if currentStage s = jd_questions then questionCount s + 1 else questionCount s)"
  by (simp add: handleGPTResponseAnalysis_def Let_def split: option.splits)

lemma askNext_fields [simp]:
  "currentStage (fst (askNextDynamicQuestion be s)) = currentStage s"
  "questionCount (fst (askNextDynamicQuestion be s)) = questionCount s"
  "maxQuestions (fst (askNextDynamicQuestion be s)) = maxQuestions s"
  by (simp_all add: askNextDynamicQuestion_def Let_def)

lemma sendNext_fields [simp]:
  "currentStage (fst (sendNextQuestion s)) = currentStage s"
  "questionCount (fst (sendNextQuestion s)) = questionCount s"
  "maxQuestions (fst (sendNextQuestion s)) = maxQuestions s"
  by (simp_all add: sendNextQuestion_def Let_def)

lemma clarification_fields [simp]:
  "currentStage (fst (sendNameClarification s)) = currentStage s"
  "questionCount (fst (sendNameClarification s)) = questionCount s"
  "maxQuestions (fst (sendNameClarification s)) = maxQuestions s"
  by (simp_all add: sendNameClarification_def)

lemma completeInterview_stage [simp]:
  "currentStage (session (completeInterview s)) = complete"
  by (simp add: completeInterview_def Let_def split: option.splits)

lemma handleJDSelection_stage:
  "currentStage (fst (handleJDSelection be t s)) = currentStage s \<or>
   currentStage (fst (handleJDSelection be t s)) = name_prompt"
  by (simp add: handleJDSelection_def Let_def split: reply.splits)

lemma handleNameExtraction_stage:
  "currentStage (fst (handleNameExtraction be t s)) = currentStage s \<or>
   currentStage (fst (handleNameExtraction be t s)) = pre_screen"
  by (simp add: handleNameExtraction_def Let_def split: reply.splits)

lemma dispatch_rank:
  "stageRank (currentStage s) \<le> stageRank (currentStage (session (dispatch be t s)))"
proof (cases "currentStage s")
  case jd_selection
  then show ?thesis using handleJDSelection_stage[of be t s] by (auto simp: dispatch_def kept_def)
next
  case name_prompt
  then show ?thesis using handleNameExtraction_stage[of be t s] by (auto simp: dispatch_def kept_def)
qed (simp_all add: dispatch_def kept_def Let_def)

lemma processTurn_session:
  "session (processTurn be t s) =
     session (dispatch be t (s\<lparr>conversationHistory := conversationHistory s @ [(user, t)]\<rparr>))"
  "removed (processTurn be t s) =
     removed (dispatch be t (s\<lparr>conversationHistory := conversationHistory s @ [(user, t)]\<rparr>))"
  "threw (processTurn be t s) =
     threw (dispatch be t (s\<lparr>conversationHistory := conversationHistory s @ [(user, t)]\<rparr>))"
  by (simp_all add: processTurn_def Let_def)

lemma processTurn_rank:
  "stageRank (currentStage s) \<le> stageRank (currentStage (session (processTurn be t s)))"
  using dispatch_rank[of "s\<lparr>conversationHistory := conversationHistory s @ [(user, t)]\<rparr>" be t]
  by (simp add: processTurn_session)

lemma completeInterview_removed_or_threw:
  "removed (completeInterview s) \<noteq> threw (completeInterview s)"
  by (simp add: completeInterview_def Let_def split: option.splits)

lemma dispatch_removed: "removed (dispatch be t s) \<Longrightarrow> currentStage s = closing"
  by (cases "currentStage s") (simp_all add: dispatch_def kept_def Let_def split: if_splits)

lemma dispatch_threw: "threw (dispatch be t s) \<Longrightarrow> currentStage s = closing"
  by (cases "currentStage s") (simp_all add: dispatch_def kept_def Let_def split: if_splits)

lemma processTurn_complete:
  "currentStage s = complete \<Longrightarrow> currentStage (session (processTurn be t s)) = complete"
  by (simp add: processTurn_session dispatch_def kept_def)

text \<open>
  Along inbound turns the order \<^verbatim>\<open>greeting\<close>, \<^verbatim>\<open>jd_selection\<close>, \<^verbatim>\<open>name_prompt\<close>,
  \<^verbatim>\<open>pre_screen\<close>, \<^verbatim>\<open>jd_questions\<close>, \<^verbatim>\<open>closing\<close>, \<^verbatim>\<open>complete\<close> is kept: the stage of the state
  object after an inbound turn is the stage before it or a later one, whatever the backend
  answers, and a state at \<^verbatim>\<open>complete\<close> stays there. In \<^verbatim>\<open>interviewStates\<close> the state of the
  sender is afterwards at the same or a later stage, or it has been deleted, which happens
  only from \<^verbatim>\<open>closing\<close>. The handler of the participant-joined event is not covered here.
\<close>

theorem stage_never_moves_back:
  "stageRank (currentStage state)
     \<le> stageRank (currentStage (session (processTurn be userText state)))
   \<and> (currentStage state = complete \<longrightarrow>
        currentStage (session (processTurn be userText state)) = complete)
   \<and> (interviewStates userId = Some state \<longrightarrow>
        (case fst (processUserMessage cfg be interviewStates userId activityText) userId of
           Some state' \<Rightarrow> stageRank (currentStage state) \<le> stageRank (currentStage state')
         | None \<Rightarrow> currentStage state = closing))"
proof (intro conjI impI)
  show "stageRank (currentStage state)
     \<le> stageRank (currentStage (session (processTurn be userText state)))"
    by (rule processTurn_rank)
next
  assume "currentStage state = complete"
  then show "currentStage (session (processTurn be userText state)) = complete"
    by (rule processTurn_complete)
next
  assume s: "interviewStates userId = Some state"
  show "case fst (processUserMessage cfg be interviewStates userId activityText) userId of
           Some state' \<Rightarrow> stageRank (currentStage state) \<le> stageRank (currentStage state')
         | None \<Rightarrow> currentStage state = closing"
  proof (cases "blank activityText")
    case True
    then show ?thesis using s by (simp add: processUserMessage_blank getUserState_existing)
  next
    case False
    show ?thesis
    proof (cases "removed (processTurn be (trim (the activityText)) state)")
      case True
      then have "currentStage state = closing"
        using dispatch_removed[of be "trim (the activityText)"
                "state\<lparr>conversationHistory := conversationHistory state @ [(user, trim (the activityText))]\<rparr>"]
        by (simp add: processTurn_session)
      then show ?thesis using s False True
        by (simp add: processUserMessage_text getUserState_existing Let_def)
    next
      case nr: False
      then show ?thesis using s False processTurn_rank[of state be "trim (the activityText)"]
        by (simp add: processUserMessage_text getUserState_existing Let_def)
    qed
  qed
qed

theorem stage_never_moves_back_witness:
  "stageRank (currentStage (exampleState complete))
     \<le> stageRank (currentStage (session (processTurn failing ''hello'' (exampleState complete))))
   \<and> currentStage (session (processTurn failing ''hello'' (exampleState complete))) = complete
   \<and> (case fst (processUserMessage None failing [''u1'' \<mapsto> exampleState complete] ''u1'' (Some ''hello'')) ''u1'' of
           Some state' \<Rightarrow> stageRank (currentStage (exampleState complete)) \<le> stageRank (currentStage state')
         | None \<Rightarrow> currentStage (exampleState complete) = closing)"
proof -
  have h1: "currentStage (exampleState complete) = complete" by (simp add: exampleState_def)
  have h2: "[''u1'' \<mapsto> exampleState complete] ''u1'' = Some (exampleState complete)" by simp
  show ?thesis
    using stage_never_moves_back[of "exampleState complete" failing "''hello''"
        "[''u1'' \<mapsto> exampleState complete]" "''u1''" None "Some ''hello''"] h1 h2
    by simp
qed

subsection \<open>The selection of the job description\<close>

lemma exampleState_fields [simp]:
  "currentStage (exampleState st) = st"
  "availableJDs (exampleState st) = [''analyst.txt'', ''auditor.txt'']"
  "questionCount (exampleState st) = 0"
  "maxQuestions (exampleState st) = 5"
  "responses (exampleState st) = Map.empty"
  "conversationHistory (exampleState st) = []"
  "candidateName (exampleState st) = None"
  "jdFileName (exampleState st) = None"
  by (simp_all add: exampleState_def exampleJDs_def getUserState_def Let_def trim_def isWhiteSpace_def)

lemma failing_fields [simp]:
  "selectionReply failing = Raises" "blobReply failing = Raises" "nameReply failing = Raises"
  "analysisReply failing = Raises" "questionReply failing = Raises"
  by (simp_all add: failing_def)

lemma processTurn_jd_selection:
  "currentStage s = jd_selection \<Longrightarrow>
     processTurn be t s =
       kept (handleJDSelection be t (s\<lparr>conversationHistory := conversationHistory s @ [(user, t)]\<rparr>))"
  by (simp add: processTurn_def dispatch_def kept_def Let_def)

text \<open>
  C5 (amended). In stage \<^verbatim>\<open>jd_selection\<close>: when the selection call returns a content that
  is missing, empty, \<^verbatim>\<open>N/A\<close> or not one of the available files, no file name is stored, the
  stage stays \<^verbatim>\<open>jd_selection\<close> and the one activity sent is the re-prompt naming the range
  from 1 to the number of available files. When the call raises, the state is likewise
  kept, but the activity sent is the message about technical difficulties, not the
  re-prompt. The stage becomes \<^verbatim>\<open>name_prompt\<close> exactly when the returned content, trimmed, is
  one of the available files (and neither empty nor \<^verbatim>\<open>N/A\<close>), and that file is then stored.
\<close>

theorem selection_outside_list_is_rejected:
  assumes "currentStage state = jd_selection"
  shows
    "(selectionReply be = Raises \<longrightarrow>
        session (processTurn be userText state)
          = state\<lparr>conversationHistory := conversationHistory state @ [(user, userText)]\<rparr>
        \<and> sent (processTurn be userText state) = sendErrorMessage)
     \<and> (selectionReply be \<noteq> Raises \<and> \<not> accepts state (selectionReply be) \<longrightarrow>
        currentStage (session (processTurn be userText state)) = jd_selection
        \<and> jdFileName (session (processTurn be userText state)) = jdFileName state
        \<and> jdContent (session (processTurn be userText state)) = jdContent state
        \<and> sent (processTurn be userText state)
            = [\<lparr>msgText = ''I couldn't identify that selection. Please select a number between 1 and ''
                   @ showNat (length (availableJDs state)) @ ''.'',
                 speak = generateSsml
                   (''I couldn't identify that selection. Please select a number between 1 and ''
                    @ showNat (length (availableJDs state)) @ ''.'')\<rparr>])
     \<and> (currentStage (session (processTurn be userText state)) = name_prompt
          \<longleftrightarrow> accepts state (selectionReply be))
     \<and> (accepts state (selectionReply be) \<longrightarrow>
          (\<exists>c. selectionReply be = Returns (Some c)
             \<and> jdFileName (session (processTurn be userText state)) = Some (trim c)
             \<and> trim c \<in> set (availableJDs state)))"
proof (cases "selectionReply be")
  case Raises
  then show ?thesis using assms
    by (simp add: processTurn_jd_selection handleJDSelection_def kept_def accepts_def)
next
  case (Returns content)
  show ?thesis
  proof (cases content)
    case None
    then show ?thesis using assms Returns
      by (simp add: processTurn_jd_selection handleJDSelection_def kept_def accepts_def Let_def)
  next
    case (Some c)
    then show ?thesis using assms Returns
      by (simp add: processTurn_jd_selection handleJDSelection_def kept_def accepts_def Let_def)
  qed
qed

theorem selection_outside_list_is_rejected_witness:
  "currentStage (session (processTurn (choosing ''manager.txt'') ''the manager role'' (exampleState jd_selection)))
     = jd_selection
   \<and> jdFileName (session (processTurn (choosing ''manager.txt'') ''the manager role'' (exampleState jd_selection)))
     = None
   \<and> sent (processTurn (choosing ''manager.txt'') ''the manager role'' (exampleState jd_selection))
     = [\<lparr>msgText = ''I couldn't identify that selection. Please select a number between 1 and 2.'',
          speak = generateSsml ''I couldn't identify that selection. Please select a number between 1 and 2.''\<rparr>]
   \<and> currentStage (session (processTurn (choosing '' auditor.txt '') ''auditor'' (exampleState jd_selection)))
     = name_prompt"
proof -
  have h1: "currentStage (exampleState jd_selection) = jd_selection" by simp
  have h2: "selectionReply (choosing ''manager.txt'') \<noteq> Raises
      \<and> \<not> accepts (exampleState jd_selection) (selectionReply (choosing ''manager.txt''))"
    by (simp add: choosing_def accepts_def trim_def isWhiteSpace_def)
  have h3: "accepts (exampleState jd_selection) (selectionReply (choosing '' auditor.txt ''))"
    by (simp add: choosing_def accepts_def trim_def isWhiteSpace_def)
  have n: "showNat (length (availableJDs (exampleState jd_selection))) = ''2''"
    by (simp add: showNat.simps)
  show ?thesis
    using selection_outside_list_is_rejected[OF h1, of "choosing ''manager.txt''" "''the manager role''"]
      selection_outside_list_is_rejected[OF h1, of "choosing '' auditor.txt ''" "''auditor''"]
      h2 h3 n
    by simp
qed

text \<open>
  C5 as stated fails when the selection call raises: the activity sent is the message about
  technical difficulties, which names no range.
\<close>

theorem selection_failure_sends_error_message:
  "sent (processTurn failing ''the second one'' (exampleState jd_selection)) = sendErrorMessage
   \<and> msgText (hd (sent (processTurn failing ''the second one'' (exampleState jd_selection))))
       = ''I'm experiencing technical difficulties. Could you please repeat your last response?''
   \<and> msgText (hd (sent (processTurn failing ''the second one'' (exampleState jd_selection))))
       \<noteq> ''I couldn't identify that selection. Please select a number between 1 and 2.''"
  by (simp add: processTurn_jd_selection handleJDSelection_def kept_def sendErrorMessage_def
        errorMessage_def)

subsection \<open>The assessment of an answer\<close>

lemma analysisFails_gptAnalysisOf: "analysisFails be \<Longrightarrow> gptAnalysisOf be = None"
  by (simp add: analysisFails_def gptAnalysisOf_def split: reply.splits)

lemma processTurn_pre_screen:
  "currentStage s = pre_screen \<Longrightarrow>
     processTurn be t s =
       kept (askNextDynamicQuestion be
               ((handleGPTResponseAnalysis be t
                   (s\<lparr>conversationHistory := conversationHistory s @ [(user, t)],
                      responses := (responses s)(''pre_screen_raw_response'' \<mapsto> JStr t)\<rparr>))
                \<lparr>currentStage := jd_questions\<rparr>))"
  by (simp add: processTurn_def dispatch_def kept_def Let_def)

lemma processTurn_jd_questions:
  "currentStage s = jd_questions \<Longrightarrow>
     processTurn be t s =
       (let state2 = handleGPTResponseAnalysis be t
                   (s\<lparr>conversationHistory := conversationHistory s @ [(user, t)],
                      responses := (responses s)
                        (''jd_q'' @ showNat (questionCount s + 1) @ ''_raw_response'' \<mapsto> JStr t)\<rparr>)
        in if questionCount s + 1 < maxQuestions s
           then kept (askNextDynamicQuestion be state2)
           else kept (sendNextQuestion (state2\<lparr>currentStage := closing\<rparr>)))"
  by (simp add: processTurn_def dispatch_def kept_def Let_def)

lemma generateSsml_not_errorSsml: "generateSsml t \<noteq> errorSsml"
  by (simp add: generateSsml_def errorSsml_def Let_def)

lemma assessed_turn_no_error:
  assumes "currentStage state = pre_screen \<or> currentStage state = jd_questions"
  shows "\<not> threw (processTurn be userText state) \<and> \<not> removed (processTurn be userText state)
         \<and> length (sent (processTurn be userText state)) = 1
         \<and> sent (processTurn be userText state) \<noteq> sendErrorMessage"
  using assms
  by (auto simp add: processTurn_pre_screen processTurn_jd_questions kept_def Let_def
        askNextDynamicQuestion_def sendNextQuestion_def sendErrorMessage_def
        generateSsml_not_errorSsml split: if_splits)

text \<open>
  C4 (amended). When the assessment call raises or returns a content that does not parse,
  the assessment recorded under the label of the stage is degraded: the summary is
  \<^verbatim>\<open>Analysis failed.\<close>, with the full stop, the entities are the empty list, and the two
  scores are not written, so they are absent unless the label already had them. The
  counter of questions is still incremented in stage \<^verbatim>\<open>jd_questions\<close>. Nothing is raised to
  the dispatcher in the stages that assess an answer: the turn sends one activity, which is
  not the message about technical difficulties.
\<close>

theorem failed_analysis_is_degraded:
  assumes "analysisFails be"
  shows
    "responses (handleGPTResponseAnalysis be userText state) (stageLabel state @ ''_gpt_summary'')
       = Some (JStr ''Analysis failed.'')
     \<and> responses (handleGPTResponseAnalysis be userText state) (stageLabel state @ ''_entities'')
       = Some (JArr [])
     \<and> responses (handleGPTResponseAnalysis be userText state) (stageLabel state @ ''_clarity_score'')
       = responses state (stageLabel state @ ''_clarity_score'')
     \<and> responses (handleGPTResponseAnalysis be userText state) (stageLabel state @ ''_relevance_score'')
       = responses state (stageLabel state @ ''_relevance_score'')
     \<and> questionCount (handleGPTResponseAnalysis be userText state)
       = (if currentStage state = jd_questions then questionCount state + 1 else questionCount state)
     \<and> (currentStage state = pre_screen \<or> currentStage state = jd_questions \<longrightarrow>
          \<not> threw (processTurn be userText state)
          \<and> length (sent (processTurn be userText state)) = 1
          \<and> sent (processTurn be userText state) \<noteq> sendErrorMessage)"
  using analysisFails_gptAnalysisOf[OF assms] assessed_turn_no_error[of state be userText]
  by (simp add: handleGPTResponseAnalysis_def Let_def)

theorem failed_analysis_is_degraded_witness:
  "responses (handleGPTResponseAnalysis failing ''I audit banks'' (exampleState jd_questions))
       ''jd_q1_gpt_summary'' = Some (JStr ''Analysis failed.'')
   \<and> responses (handleGPTResponseAnalysis failing ''I audit banks'' (exampleState jd_questions))
       ''jd_q1_entities'' = Some (JArr [])
   \<and> responses (handleGPTResponseAnalysis failing ''I audit banks'' (exampleState jd_questions))
       ''jd_q1_clarity_score'' = None
   \<and> responses (handleGPTResponseAnalysis failing ''I audit banks'' (exampleState jd_questions))
       ''jd_q1_relevance_score'' = None
   \<and> questionCount (handleGPTResponseAnalysis failing ''I audit banks'' (exampleState jd_questions)) = 1
   \<and> \<not> threw (processTurn failing ''I audit banks'' (exampleState jd_questions))
   \<and> sent (processTurn failing ''I audit banks'' (exampleState jd_questions)) \<noteq> sendErrorMessage"
proof -
  have h: "analysisFails failing" by (simp add: analysisFails_def)
  have l: "stageLabel (exampleState jd_questions) = ''jd_q1''"
    by (simp add: stageLabel_def showNat.simps)
  show ?thesis
    using failed_analysis_is_degraded[OF h, of "''I audit banks''" "exampleState jd_questions"] l
    by simp
qed

text \<open>
  C4 as stated fails on the text of the summary: the program stores \<^verbatim>\<open>Analysis failed.\<close>,
  which is not the string \<^verbatim>\<open>Analysis failed\<close>.
\<close>

theorem failed_analysis_summary_has_full_stop:
  "responses (handleGPTResponseAnalysis failing ''I audit banks'' (exampleState pre_screen))
       ''pre_screen_gpt_summary'' = Some (JStr ''Analysis failed.'')
   \<and> responses (handleGPTResponseAnalysis failing ''I audit banks'' (exampleState pre_screen))
       ''pre_screen_gpt_summary'' \<noteq> Some (JStr ''Analysis failed'')"
  by (simp add: handleGPTResponseAnalysis_def gptAnalysisOf_def stageLabel_def Let_def)

subsection \<open>The spoken markup\<close>

lemma replaceAllChar_Cons:
  "replaceAllChar c r (x # xs) = (if x = c then r else [x]) @ replaceAllChar c r xs"
  by (simp add: replaceAllChar_def)

lemma replaceAllChar_Nil: "replaceAllChar c r [] = []"
  by (simp add: replaceAllChar_def)

lemma replaceAllChar_append:
  "replaceAllChar c r (a @ b) = replaceAllChar c r a @ replaceAllChar c r b"
  by (simp add: replaceAllChar_def)

lemma sanitize_escaped:
  "replaceAllChar (CHR ''>'') ''&gt;''
     (replaceAllChar (CHR ''<'') ''&lt;'' (replaceAllChar (CHR ''&'') ''&amp;'' t)) = escaped t"
proof (induction t)
  case Nil
  then show ?case by (simp add: replaceAllChar_Nil escaped_def)
next
  case (Cons x xs)
  then show ?case
    by (simp add: replaceAllChar_Cons replaceAllChar_append replaceAllChar_Nil escaped_def
          escapeChar_def)
qed

lemma generateSsml_escaped: "generateSsml t = ssmlOpen @ escaped t @ ssmlClose"
  by (simp add: generateSsml_def Let_def sanitize_escaped ssmlOpen_def ssmlClose_def)


lemma derived_generateSsml [simp]: "derived \<lparr>msgText = t, speak = generateSsml t\<rparr>"
  by (simp add: derived_def generateSsml_escaped)













subsection \<open>The question budget\<close>

lemma run_snoc: "run cfg uid (es @ [e]) st = step cfg uid (run cfg uid es st) e"
  by (simp add: run_def)

lemma run_Nil: "run cfg uid [] st = st"
  by (simp add: run_def)

lemma askForJDSelection_fields [simp]:
  "currentStage (fst (askForJDSelection s)) = currentStage s"
  "questionCount (fst (askForJDSelection s)) = questionCount s"
  "maxQuestions (fst (askForJDSelection s)) = maxQuestions s"
  "availableJDs (fst (askForJDSelection s)) = availableJDs s"
  by (simp_all add: askForJDSelection_def Let_def)

lemma joined_fresh:
  "st uid = None \<Longrightarrow> sessionAt (step cfg uid st Joined) uid (configured cfg) jd_selection 0"
  by (simp add: sendWelcomeMessage_def getUserState_def askForJDSelection_def Let_def
        sessionAt_def configured_def split: prod.splits)

lemma joined_existing:
  "sessionAt st uid files stg n \<Longrightarrow> sessionAt (step cfg uid st Joined) uid files jd_selection n"
  by (auto simp add: sendWelcomeMessage_def getUserState_def askForJDSelection_def Let_def
        sessionAt_def split: prod.splits option.splits)

lemma inbound_step:
  "st uid = Some s \<Longrightarrow> \<not> blank a \<Longrightarrow>
     fst (processUserMessage cfg be st uid a) =
       (if removed (processTurn be (trim (the a)) s) then st(uid := None)
        else st(uid \<mapsto> session (processTurn be (trim (the a)) s)))"
  by (simp add: processUserMessage_text getUserState_existing Let_def)

lemma handleGPT_files [simp]:
  "availableJDs (handleGPTResponseAnalysis be t s) = availableJDs s"
  by (simp add: handleGPTResponseAnalysis_def Let_def split: option.splits)

lemma askNext_files [simp]: "availableJDs (fst (askNextDynamicQuestion be s)) = availableJDs s"
  by (simp add: askNextDynamicQuestion_def Let_def)

lemma sendNext_files [simp]: "availableJDs (fst (sendNextQuestion s)) = availableJDs s"
  by (simp add: sendNextQuestion_def Let_def)

lemma selection_step:
  assumes "sessionAt st uid files jd_selection n" and "\<not> blank a"
    and "selectionReply be = Returns (Some c)" and "trim c \<in> set files"
    and "trim c \<noteq> []" and "trim c \<noteq> ''N/A''"
  shows "sessionAt (step cfg uid st (Inbound a be)) uid files name_prompt n"
proof -
  obtain s where s: "st uid = Some s" "currentStage s = jd_selection" "questionCount s = n"
      "maxQuestions s = 5" "availableJDs s = files"
    using assms(1) by (auto simp add: sessionAt_def split: option.splits)
  show ?thesis
    using s assms(2-6)
    by (simp add: inbound_step processTurn_jd_selection kept_def handleJDSelection_def Let_def
          sessionAt_def)
qed

lemma processTurn_name_prompt:
  "currentStage s = name_prompt \<Longrightarrow>
     processTurn be t s =
       kept (handleNameExtraction be t (s\<lparr>conversationHistory := conversationHistory s @ [(user, t)]\<rparr>))"
  by (simp add: processTurn_def dispatch_def kept_def Let_def)

lemma name_step:
  assumes "sessionAt st uid files name_prompt n" and "\<not> blank a" and "namesCandidate be"
  shows "sessionAt (step cfg uid st (Inbound a be)) uid files pre_screen n"
proof -
  obtain s where s: "st uid = Some s" "currentStage s = name_prompt" "questionCount s = n"
      "maxQuestions s = 5" "availableJDs s = files"
    using assms(1) by (auto simp add: sessionAt_def split: option.splits)
  obtain c where c: "nameReply be = Returns (Some c)"
      "filter (\<lambda>c. c \<noteq> CHR 0x27 \<and> c \<noteq> CHR 0x22) (trim c) \<noteq> []"
      "toUpperCase (filter (\<lambda>c. c \<noteq> CHR 0x27 \<and> c \<noteq> CHR 0x22) (trim c)) \<noteq> ''N/A''"
    using assms(3) by (auto simp add: namesCandidate_def split: reply.splits option.splits)
  show ?thesis
    using s c assms(2)
    by (simp add: inbound_step processTurn_name_prompt kept_def handleNameExtraction_def Let_def
          sessionAt_def)
qed

lemma pre_screen_step:
  assumes "sessionAt st uid files pre_screen n" and "\<not> blank a"
  shows "sessionAt (step cfg uid st (Inbound a be)) uid files jd_questions n"
proof -
  obtain s where s: "st uid = Some s" "currentStage s = pre_screen" "questionCount s = n"
      "maxQuestions s = 5" "availableJDs s = files"
    using assms(1) by (auto simp add: sessionAt_def split: option.splits)
  show ?thesis
    using s assms(2)
    by (simp add: inbound_step processTurn_pre_screen kept_def sessionAt_def)
qed

lemma jd_questions_step:
  assumes "sessionAt st uid files jd_questions n" and "\<not> blank a"
  shows "sessionAt (step cfg uid st (Inbound a be)) uid files
           (if n + 1 < 5 then jd_questions else closing) (n + 1)"
proof -
  obtain s where s: "st uid = Some s" "currentStage s = jd_questions" "questionCount s = n"
      "maxQuestions s = 5" "availableJDs s = files"
    using assms(1) by (auto simp add: sessionAt_def split: option.splits)
  show ?thesis
    using s assms(2)
    by (simp add: inbound_step processTurn_jd_questions kept_def sessionAt_def Let_def)
qed


lemma answering_facts:
  "selectionReply answering = Returns (Some ''analyst.txt'')"
  "trim ''analyst.txt'' = ''analyst.txt''"
  "namesCandidate answering"
  "configured exampleJDs = [''analyst.txt'', ''auditor.txt'']"
  by (simp_all add: answering_def namesCandidate_def trim_def isWhiteSpace_def toUpperCase_def
        configured_def exampleJDs_def)

lemma not_blank_examples:
  "\<not> blank (Some ''the first one'')" "\<not> blank (Some ''I am Ada Lovelace'')"
  "\<not> blank (Some ''I studied mathematics'')" "\<not> blank (Some ''answer one'')"
  "\<not> blank (Some ''answer two'')" "\<not> blank (Some ''answer three'')"
  "\<not> blank (Some ''answer four'')" "\<not> blank (Some ''answer five'')"
  "\<not> blank (Some ''answer six'')" "\<not> blank (Some ''thanks'')" "\<not> blank (Some ''hello again'')"
  by (simp_all add: blank_def isWhiteSpace_def)

text \<open>The first eight events of the example interview lead to the fifth question.\<close>

lemma interview_before_last_answer:
  "sessionAt
     (run exampleJDs ''u1'' (butlast (interviewEvents answering lastly)) Map.empty) ''u1''
     [''analyst.txt'', ''auditor.txt''] jd_questions 4"
proof -
  let ?f = "[''analyst.txt'', ''auditor.txt'']"
  let ?s1 = "step exampleJDs ''u1'' Map.empty Joined"
  let ?s2 = "step exampleJDs ''u1'' ?s1 (Inbound (Some ''the first one'') answering)"
  let ?s3 = "step exampleJDs ''u1'' ?s2 (Inbound (Some ''I am Ada Lovelace'') answering)"
  let ?s4 = "step exampleJDs ''u1'' ?s3 (Inbound (Some ''I studied mathematics'') answering)"
  let ?s5 = "step exampleJDs ''u1'' ?s4 (Inbound (Some ''answer one'') answering)"
  let ?s6 = "step exampleJDs ''u1'' ?s5 (Inbound (Some ''answer two'') answering)"
  let ?s7 = "step exampleJDs ''u1'' ?s6 (Inbound (Some ''answer three'') answering)"
  let ?s8 = "step exampleJDs ''u1'' ?s7 (Inbound (Some ''answer four'') answering)"
  have a1: "sessionAt ?s1 ''u1'' ?f jd_selection 0"
    using joined_fresh[of Map.empty "''u1''" exampleJDs] answering_facts(4) by simp
  have a2: "sessionAt ?s2 ''u1'' ?f name_prompt 0"
    using selection_step[OF a1 not_blank_examples(1) answering_facts(1), of exampleJDs] answering_facts(2)
    by simp
  have a3: "sessionAt ?s3 ''u1'' ?f pre_screen 0"
    using name_step[OF a2 not_blank_examples(2) answering_facts(3), of exampleJDs] by simp
  have a4: "sessionAt ?s4 ''u1'' ?f jd_questions 0"
    using pre_screen_step[OF a3 not_blank_examples(3), of exampleJDs answering] by simp
  have a5: "sessionAt ?s5 ''u1'' ?f jd_questions 1"
    using jd_questions_step[OF a4 not_blank_examples(4), of exampleJDs answering]
    by (simp add: eval_nat_numeral)
  have a6: "sessionAt ?s6 ''u1'' ?f jd_questions 2"
    using jd_questions_step[OF a5 not_blank_examples(5), of exampleJDs answering]
    by (simp add: eval_nat_numeral)
  have a7: "sessionAt ?s7 ''u1'' ?f jd_questions 3"
    using jd_questions_step[OF a6 not_blank_examples(6), of exampleJDs answering]
    by (simp add: eval_nat_numeral)
  have a8: "sessionAt ?s8 ''u1'' ?f jd_questions 4"
    using jd_questions_step[OF a7 not_blank_examples(7), of exampleJDs answering]
    by (simp add: eval_nat_numeral)
  have "run exampleJDs ''u1'' (butlast (interviewEvents answering lastly)) Map.empty = ?s8"
    by (simp add: run_def interviewEvents_def)
  then show ?thesis using a8 by simp
qed

lemma interview_reaches_closing:
  "sessionAt (run exampleJDs ''u1'' (interviewEvents answering lastly) Map.empty) ''u1''
     [''analyst.txt'', ''auditor.txt''] closing 5"
proof -
  have e: "interviewEvents answering lastly
      = butlast (interviewEvents answering lastly) @ [Inbound (Some ''answer five'') lastly]"
    by (simp add: interviewEvents_def)
  have "sessionAt
      (step exampleJDs ''u1''
         (run exampleJDs ''u1'' (butlast (interviewEvents answering lastly)) Map.empty)
         (Inbound (Some ''answer five'') lastly)) ''u1''
      [''analyst.txt'', ''auditor.txt''] closing 5"
    using jd_questions_step[OF interview_before_last_answer not_blank_examples(8), of exampleJDs lastly]
    by (simp add: eval_nat_numeral)
  then show ?thesis using run_snoc[of exampleJDs "''u1''" "butlast (interviewEvents answering lastly)"
      "Inbound (Some ''answer five'') lastly" Map.empty] e by simp
qed


lemma restart_reaches_sixth_question:
  "sessionAt (run exampleJDs ''u1'' restartEvents Map.empty) ''u1''
     [''analyst.txt'', ''auditor.txt''] closing 6"
proof -
  let ?f = "[''analyst.txt'', ''auditor.txt'']"
  let ?s9 = "run exampleJDs ''u1'' (interviewEvents answering answering) Map.empty"
  let ?s10 = "step exampleJDs ''u1'' ?s9 Joined"
  let ?s11 = "step exampleJDs ''u1'' ?s10 (Inbound (Some ''the first one'') answering)"
  let ?s12 = "step exampleJDs ''u1'' ?s11 (Inbound (Some ''I am Ada Lovelace'') answering)"
  let ?s13 = "step exampleJDs ''u1'' ?s12 (Inbound (Some ''I studied mathematics'') answering)"
  let ?s14 = "step exampleJDs ''u1'' ?s13 (Inbound (Some ''answer six'') answering)"
  have a9: "sessionAt ?s9 ''u1'' ?f closing 5" by (rule interview_reaches_closing)
  have a10: "sessionAt ?s10 ''u1'' ?f jd_selection 5" by (rule joined_existing[OF a9])
  have a11: "sessionAt ?s11 ''u1'' ?f name_prompt 5"
    using selection_step[OF a10 not_blank_examples(1) answering_facts(1), of exampleJDs]
      answering_facts(2)
    by simp
  have a12: "sessionAt ?s12 ''u1'' ?f pre_screen 5"
    using name_step[OF a11 not_blank_examples(2) answering_facts(3), of exampleJDs] by simp
  have a13: "sessionAt ?s13 ''u1'' ?f jd_questions 5"
    using pre_screen_step[OF a12 not_blank_examples(3), of exampleJDs answering] by simp
  have a14: "sessionAt ?s14 ''u1'' ?f closing 6"
    using jd_questions_step[OF a13 not_blank_examples(9), of exampleJDs answering]
    by (simp add: eval_nat_numeral)
  have "run exampleJDs ''u1'' restartEvents Map.empty = ?s14"
    by (simp add: run_def restartEvents_def)
  then show ?thesis using a14 by simp
qed

text \<open>
  C1 fails on the program. In the example interview the state reaches \<^verbatim>\<open>closing\<close> with the
  counter at 5, the maximum. When a participant-joined event then arrives for the same
  sender, \<^verbatim>\<open>sendWelcomeMessage\<close> sets the stage of the existing state back to
  \<^verbatim>\<open>jd_selection\<close> and keeps the counter; the second pass reaches \<^verbatim>\<open>jd_questions\<close> with the
  counter at 5, and the next answer makes it 6, above \<^verbatim>\<open>maxQuestions\<close>.
\<close>

theorem rejoining_at_closing_exceeds_budget:
  "(case run exampleJDs ''u1'' (interviewEvents answering answering) Map.empty ''u1'' of
      Some state \<Rightarrow> currentStage state = closing \<and> questionCount state = 5
                    \<and> maxQuestions state = 5
    | None \<Rightarrow> False)
   \<and> (case run exampleJDs ''u1'' restartEvents Map.empty ''u1'' of
      Some state \<Rightarrow> questionCount state = 6 \<and> maxQuestions state = 5
                    \<and> maxQuestions state < questionCount state
    | None \<Rightarrow> False)"
  using interview_reaches_closing[of answering] restart_reaches_sixth_question
  by (simp add: sessionAt_def split: option.splits)

text \<open>
  Along inbound turns the bound of C1 does hold: a turn in \<^verbatim>\<open>jd_questions\<close> increments the
  counter and moves to \<^verbatim>\<open>closing\<close> exactly when the incremented counter is no longer below
  the maximum, every turn keeps the counter within the budget, and so does every run that
  starts with the welcome of a new sender and continues with inbound messages.
\<close>

lemma handleJDSelection_budget [simp]:
  "questionCount (fst (handleJDSelection be t s)) = questionCount s"
  "maxQuestions (fst (handleJDSelection be t s)) = maxQuestions s"
  by (simp_all add: handleJDSelection_def Let_def split: reply.splits)

lemma handleNameExtraction_budget [simp]:
  "questionCount (fst (handleNameExtraction be t s)) = questionCount s"
  "maxQuestions (fst (handleNameExtraction be t s)) = maxQuestions s"
  by (simp_all add: handleNameExtraction_def Let_def split: reply.splits)

lemma completeInterview_budget [simp]:
  "questionCount (session (completeInterview s)) = questionCount s"
  "maxQuestions (session (completeInterview s)) = maxQuestions s"
  by (simp_all add: completeInterview_def Let_def split: option.splits)

lemma jd_questions_turn:
  "currentStage s = jd_questions \<Longrightarrow>
     currentStage (session (processTurn be t s))
       = (if questionCount s + 1 < maxQuestions s then jd_questions else closing)
     \<and> questionCount (session (processTurn be t s)) = questionCount s + 1
     \<and> maxQuestions (session (processTurn be t s)) = maxQuestions s"
  by (simp add: processTurn_jd_questions kept_def Let_def)

lemma processTurn_withinBudget:
  assumes "withinBudget s"
  shows "withinBudget (session (processTurn be t s))"
proof (cases "currentStage s")
  case jd_selection
  then show ?thesis
    using assms handleJDSelection_stage[of be t "s\<lparr>conversationHistory := conversationHistory s @ [(user, t)]\<rparr>"]
    by (auto simp add: withinBudget_def processTurn_jd_selection kept_def)
next
  case name_prompt
  then show ?thesis
    using assms handleNameExtraction_stage[of be t "s\<lparr>conversationHistory := conversationHistory s @ [(user, t)]\<rparr>"]
    by (auto simp add: withinBudget_def processTurn_name_prompt kept_def)
next
  case pre_screen
  then show ?thesis using assms
    by (simp add: withinBudget_def processTurn_pre_screen kept_def)
next
  case jd_questions
  then show ?thesis using assms jd_questions_turn[of s be t]
    by (auto simp add: withinBudget_def)
next
  case closing
  then show ?thesis using assms
    by (simp add: withinBudget_def processTurn_session dispatch_def)
next
  case complete
  then show ?thesis using assms
    by (simp add: withinBudget_def processTurn_session dispatch_def kept_def)
next
  case greeting
  then show ?thesis using assms
    by (simp add: withinBudget_def processTurn_greeting)
qed

lemma getUserState_withinBudget:
  "storeWithinBudget st uid \<Longrightarrow>
     withinBudget (snd (getUserState cfg st uid))
     \<and> fst (getUserState cfg st uid) uid = Some (snd (getUserState cfg st uid))"
  by (cases "st uid")
     (simp_all add: getUserState_def Let_def storeWithinBudget_def withinBudget_def)

lemma inbound_withinBudget:
  assumes "storeWithinBudget st uid"
  shows "storeWithinBudget (fst (processUserMessage cfg be st uid a)) uid"
proof (cases "blank a")
  case True
  then show ?thesis using getUserState_withinBudget[OF assms, of cfg]
    by (simp add: processUserMessage_blank storeWithinBudget_def)
next
  case False
  then show ?thesis
    using getUserState_withinBudget[OF assms, of cfg]
      processTurn_withinBudget[of "snd (getUserState cfg st uid)" be "trim (the a)"]
    by (simp add: processUserMessage_text Let_def storeWithinBudget_def)
qed

lemma inbound_run_withinBudget:
  "list_all isInbound events \<Longrightarrow> storeWithinBudget st uid \<Longrightarrow>
     storeWithinBudget (run cfg uid events st) uid"
proof (induction events arbitrary: st)
  case Nil
  then show ?case by (simp add: run_def)
next
  case (Cons e es)
  then obtain a be where e: "e = Inbound a be" by (cases e) auto
  have "storeWithinBudget (step cfg uid st e) uid"
    using Cons.prems(2) e by (simp add: inbound_withinBudget)
  then have "storeWithinBudget (run cfg uid es (step cfg uid st e)) uid" using Cons by simp
  then show ?case by (simp add: run_def)
qed

lemma budget_kept_after_first_welcome:
  assumes "st uid = None" and "list_all isInbound events"
  shows "storeWithinBudget (run cfg uid (Joined # events) st) uid"
proof -
  have "sessionAt (step cfg uid st Joined) uid (configured cfg) jd_selection 0"
    using joined_fresh[of st uid cfg] assms(1) by simp
  then have "storeWithinBudget (step cfg uid st Joined) uid"
    by (auto simp add: sessionAt_def storeWithinBudget_def withinBudget_def split: option.splits)
  then have "storeWithinBudget (run cfg uid events (step cfg uid st Joined)) uid"
    by (rule inbound_run_withinBudget[OF assms(2)])
  then show ?thesis by (simp add: run_def)
qed

subsection \<open>Faults while the interview is completed\<close>

lemma those_entityText_null: "JNull \<in> set es \<Longrightarrow> those (map entityText es) = None"
proof (induction es)
  case Nil
  then show ?case by simp
next
  case (Cons e es)
  then show ?case by (cases "e = JNull") (auto simp add: entityText_def split: option.splits)
qed

lemma reportLoop_fault:
  assumes "rs (k @ ''_entities'') = Some (JArr es)" and "JNull \<in> set es"
  shows "k \<in> set stages \<Longrightarrow> reportLoop rs stages acc = None"
proof (induction stages arbitrary: acc)
  case Nil
  then show ?case by simp
next
  case (Cons stage rest)
  obtain tc tr v rep where acc: "acc = (tc, tr, v, rep)" by (cases acc) auto
  show ?case
  proof (cases "stage = k")
    case True
    then show ?thesis using assms acc
      by (simp add: those_entityText_null split: Option.bind_splits)
  next
    case False
    then have "k \<in> set rest" using Cons.prems by simp
    then have "\<And>acc'. reportLoop rs rest acc' = None" using Cons.IH by simp
    then show ?thesis using acc by (simp split: Option.bind_splits)
  qed
qed

lemma completeInterview_fault:
  assumes "reportLoop (responses s) (reportStages (maxQuestions s)) (0, 0, 0, []) = None"
  shows "completeInterview s
           = \<lparr>session = s\<lparr>currentStage := complete\<rparr>, sent = [], threw = True, removed = False\<rparr>"
  using assms by (simp add: completeInterview_def Let_def)

lemma processTurn_closing:
  "currentStage s = closing \<Longrightarrow>
     dispatch be t s = completeInterview s"
  by (simp add: dispatch_def)

lemma threw_characterised:
  "threw (processTurn be t s) \<longleftrightarrow>
     currentStage s = closing
     \<and> reportLoop (responses s) (reportStages (maxQuestions s)) (0, 0, 0, []) = None"
proof
  assume t: "threw (processTurn be t s)"
  then have c: "currentStage s = closing"
    using dispatch_threw[of be t "s\<lparr>conversationHistory := conversationHistory s @ [(user, t)]\<rparr>"]
    by (simp add: processTurn_session)
  then show "currentStage s = closing
     \<and> reportLoop (responses s) (reportStages (maxQuestions s)) (0, 0, 0, []) = None"
    using t by (simp add: processTurn_session dispatch_def completeInterview_def Let_def
        split: option.splits)
next
  assume "currentStage s = closing
     \<and> reportLoop (responses s) (reportStages (maxQuestions s)) (0, 0, 0, []) = None"
  then show "threw (processTurn be t s)"
    by (simp add: processTurn_session dispatch_def completeInterview_def Let_def)
qed

lemma processTurn_fault:
  assumes "threw (processTurn be t s)"
  shows "processTurn be t s
           = \<lparr>session = s\<lparr>conversationHistory := conversationHistory s @ [(user, t)],
                           currentStage := complete\<rparr>,
              sent = sendErrorMessage, threw = True, removed = False\<rparr>"
  using assms threw_characterised[of be t s]
  by (simp add: processTurn_def dispatch_def completeInterview_def Let_def)


lemma faulty_fields [simp]:
  "currentStage faulty = closing" "maxQuestions faulty = 5" "conversationHistory faulty = []"
  "responses faulty ''pre_screen_entities'' = Some (JArr [JNull])"
  by (simp_all add: faulty_def)




lemma askNext_responses [simp]:
  "responses (fst (askNextDynamicQuestion be s)) = responses s"
  by (simp add: askNextDynamicQuestion_def Let_def)

lemma sendNext_responses [simp]:
  "responses (fst (sendNextQuestion s)) = responses s"
  by (simp add: sendNextQuestion_def Let_def)

lemma jd_questions_entities:
  assumes "st uid = Some s" and "currentStage s = jd_questions" and "\<not> blank a"
    and "gptAnalysisOf be = Some v"
  shows "\<exists>s'. fst (processUserMessage cfg be st uid a) uid = Some s'
           \<and> responses s' (''jd_q'' @ showNat (questionCount s + 1) @ ''_entities'')
               = Some (orElse (getProperty v ''ExtractedEntities'') (JArr []))"
  using assms
  by (simp add: inbound_step processTurn_jd_questions kept_def Let_def
        handleGPTResponseAnalysis_def stageLabel_def)

lemma nullEntity_analysis:
  "gptAnalysisOf nullEntity = Some (JObj [(''ExtractedEntities'', JArr [JNull])])"
  by (simp add: gptAnalysisOf_def nullEntity_def answering_def nullEntityJson_def)

lemma fault_interview_state:
  "\<exists>s. run exampleJDs ''u1'' faultEvents Map.empty ''u1'' = Some s
       \<and> currentStage s = closing \<and> maxQuestions s = 5
       \<and> responses s ''jd_q5_entities'' = Some (JArr [JNull])"
proof -
  let ?st8 = "run exampleJDs ''u1'' (butlast (interviewEvents answering nullEntity)) Map.empty"
  obtain s8 where s8: "?st8 ''u1'' = Some s8" "currentStage s8 = jd_questions"
      "questionCount s8 = 4"
    using interview_before_last_answer[of nullEntity]
    by (auto simp add: sessionAt_def split: option.splits)
  have five: "showNat (questionCount s8 + 1) = ''5''" using s8(3) by (simp add: showNat.simps)
  obtain s9 where s9:
      "fst (processUserMessage exampleJDs nullEntity ?st8 ''u1'' (Some ''answer five'')) ''u1''
         = Some s9"
      "responses s9 ''jd_q5_entities'' = Some (JArr [JNull])"
    using jd_questions_entities[where st = "?st8" and uid = "''u1''" and s = s8
        and a = "Some ''answer five''" and be = nullEntity and cfg = exampleJDs
        and v = "JObj [(''ExtractedEntities'', JArr [JNull])]"]
      s8 not_blank_examples(8) nullEntity_analysis five
    by (auto simp add: orElse_def)
  have e: "interviewEvents answering nullEntity
      = butlast (interviewEvents answering nullEntity) @ [Inbound (Some ''answer five'') nullEntity]"
    by (simp add: interviewEvents_def)
  have r: "run exampleJDs ''u1'' faultEvents Map.empty
      = fst (processUserMessage exampleJDs nullEntity ?st8 ''u1'' (Some ''answer five''))"
    using run_snoc[of exampleJDs "''u1''" "butlast (interviewEvents answering nullEntity)"
        "Inbound (Some ''answer five'') nullEntity" Map.empty] e
    by (simp add: faultEvents_def)
  have "sessionAt (run exampleJDs ''u1'' faultEvents Map.empty) ''u1''
     [''analyst.txt'', ''auditor.txt''] closing 5"
    using interview_reaches_closing[of nullEntity] by (simp add: faultEvents_def)
  then show ?thesis using s9 r by (auto simp add: sessionAt_def split: option.splits)
qed

lemma reportStages_five: "''jd_q5'' \<in> set (reportStages 5)"
  by code_simp

lemma closing_fault_step:
  assumes "st uid = Some s" and "currentStage s = closing" and "maxQuestions s = 5"
    and "responses s ''jd_q5_entities'' = Some (JArr [JNull])" and "\<not> blank a"
  shows "processUserMessage cfg be st uid a
           = (st(uid \<mapsto> s\<lparr>conversationHistory := conversationHistory s @ [(user, trim (the a))],
                            currentStage := complete\<rparr>),
              sendErrorMessage)"
proof -
  have "reportLoop (responses s) (reportStages (maxQuestions s)) (0, 0, 0, []) = None"
    using reportLoop_fault[of "responses s" "''jd_q5''" "[JNull]" "reportStages 5" "(0, 0, 0, [])"]
      reportStages_five assms(3,4)
    by simp
  then have "threw (processTurn be (trim (the a)) s)"
    using assms(2) by (simp add: threw_characterised)
  then show ?thesis
    using processTurn_fault[of be "trim (the a)" s] assms(1,5)
    by (simp add: processUserMessage_text getUserState_existing Let_def)
qed

lemma complete_step:
  assumes "st uid = Some s" and "currentStage s = complete" and "\<not> blank a"
  shows "processUserMessage cfg be st uid a
           = (st(uid \<mapsto> s\<lparr>conversationHistory := conversationHistory s @ [(user, trim (the a))]\<rparr>),
              [\<lparr>msgText = completedMessage, speak = generateSsml completedMessage\<rparr>])"
  using assms
  by (simp add: processUserMessage_text getUserState_existing Let_def processTurn_def
        dispatch_def kept_def)

text \<open>
  C8 fails on the program in the same interview. The turn at \<^verbatim>\<open>closing\<close> sets the stage to
  \<^verbatim>\<open>complete\<close> and then raises while the summary is built, before the entry of the sender
  is deleted: the state stays in \<^verbatim>\<open>interviewStates\<close> at \<^verbatim>\<open>complete\<close>, and the next inbound
  turn is answered by the notice that the interview has been completed instead of creating
  a new state at \<^verbatim>\<open>greeting\<close>.
\<close>

theorem fault_in_summary_leaves_completed_session:
  "(case run exampleJDs ''u1'' faultEvents Map.empty ''u1'' of
      Some state \<Rightarrow> currentStage state = closing | None \<Rightarrow> False)
   \<and> snd (processUserMessage exampleJDs answering
            (run exampleJDs ''u1'' faultEvents Map.empty) ''u1'' (Some ''thanks''))
       = sendErrorMessage
   \<and> (case run exampleJDs ''u1'' (faultEvents @ [Inbound (Some ''thanks'') answering])
              Map.empty ''u1'' of
      Some state \<Rightarrow> currentStage state = complete | None \<Rightarrow> False)
   \<and> snd (processUserMessage exampleJDs answering
            (run exampleJDs ''u1'' (faultEvents @ [Inbound (Some ''thanks'') answering]) Map.empty)
            ''u1'' (Some ''hello again''))
       = [\<lparr>msgText = completedMessage, speak = generateSsml completedMessage\<rparr>]
   \<and> (case run exampleJDs ''u1''
              (faultEvents @ [Inbound (Some ''thanks'') answering,
                              Inbound (Some ''hello again'') answering])
              Map.empty ''u1'' of
      Some state \<Rightarrow> currentStage state = complete \<and> currentStage state \<noteq> greeting
    | None \<Rightarrow> False)"
proof -
  let ?st9 = "run exampleJDs ''u1'' faultEvents Map.empty"
  obtain s9 where s9: "?st9 ''u1'' = Some s9" "currentStage s9 = closing" "maxQuestions s9 = 5"
      "responses s9 ''jd_q5_entities'' = Some (JArr [JNull])"
    using fault_interview_state by blast
  let ?s10 = "s9\<lparr>conversationHistory := conversationHistory s9 @ [(user, trim (the (Some ''thanks'')))],
                 currentStage := complete\<rparr>"
  have p10: "processUserMessage exampleJDs answering ?st9 ''u1'' (Some ''thanks'')
      = (?st9(''u1'' \<mapsto> ?s10), sendErrorMessage)"
    using closing_fault_step[where st = "?st9" and uid = "''u1''" and s = s9
        and a = "Some ''thanks''" and be = answering and cfg = exampleJDs]
      s9 not_blank_examples(10)
    by simp
  have r10: "run exampleJDs ''u1'' (faultEvents @ [Inbound (Some ''thanks'') answering]) Map.empty
      = ?st9(''u1'' \<mapsto> ?s10)"
    using p10 by (simp add: run_snoc)
  let ?s11 = "?s10\<lparr>conversationHistory :=
                     conversationHistory ?s10 @ [(user, trim (the (Some ''hello again'')))]\<rparr>"
  have p11: "processUserMessage exampleJDs answering (?st9(''u1'' \<mapsto> ?s10)) ''u1''
        (Some ''hello again'')
      = ((?st9(''u1'' \<mapsto> ?s10))(''u1'' \<mapsto> ?s11),
         [\<lparr>msgText = completedMessage, speak = generateSsml completedMessage\<rparr>])"
    using complete_step[where st = "?st9(''u1'' \<mapsto> ?s10)" and uid = "''u1''" and s = "?s10"
        and a = "Some ''hello again''" and be = answering and cfg = exampleJDs]
      not_blank_examples(11)
    by simp
  have r11: "run exampleJDs ''u1''
              (faultEvents @ [Inbound (Some ''thanks'') answering,
                              Inbound (Some ''hello again'') answering]) Map.empty
      = (?st9(''u1'' \<mapsto> ?s10))(''u1'' \<mapsto> ?s11)"
    using run_snoc[of exampleJDs "''u1''" "faultEvents @ [Inbound (Some ''thanks'') answering]"
        "Inbound (Some ''hello again'') answering" Map.empty] r10 p11
    by simp
  show ?thesis
    unfolding r11 r10 p11 p10 using s9 by simp
qed

text \<open>
  When the summary is built without a fault, the entry of the sender is deleted after the
  one summary activity, and the state that \<^verbatim>\<open>getUserState\<close> creates on the next contact is
  at \<^verbatim>\<open>greeting\<close> with an empty history, no responses and the counter at zero.
\<close>

lemma completed_session_is_removed:
  assumes "st uid = Some s" and "currentStage s = closing" and "\<not> blank a"
    and "reportLoop (responses s) (reportStages (maxQuestions s)) (0, 0, 0, []) \<noteq> None"
  shows "fst (processUserMessage cfg be st uid a) uid = None
         \<and> length (snd (processUserMessage cfg be st uid a)) = 1
         \<and> (let fresh = snd (getUserState cfg (fst (processUserMessage cfg be st uid a)) uid)
            in currentStage fresh = greeting \<and> conversationHistory fresh = []
               \<and> responses fresh = Map.empty \<and> questionCount fresh = 0)"
proof -
  obtain totals where t: "reportLoop (responses s) (reportStages (maxQuestions s)) (0, 0, 0, [])
      = Some totals"
    using assms(4) by auto
  have "removed (processTurn be (trim (the a)) s)
        \<and> length (sent (processTurn be (trim (the a)) s)) = 1"
    using t assms(2) by (simp add: processTurn_def dispatch_def completeInterview_def Let_def)
  then have r: "fst (processUserMessage cfg be st uid a) uid = None
      \<and> length (snd (processUserMessage cfg be st uid a)) = 1"
    using assms(1,3) by (simp add: processUserMessage_text getUserState_existing Let_def)
  then show ?thesis by (simp add: getUserState_def Let_def)
qed


text \<open>
  C2 fails on the program. The handler of the participant-joined event sets the stage of
  an existing state to \<^verbatim>\<open>jd_selection\<close> whatever it was. In the example interview the state
  is at \<^verbatim>\<open>closing\<close>, and after a participant-joined event for the same sender it is at
  \<^verbatim>\<open>jd_selection\<close>, an earlier stage. In the interview whose summary raised, the state is at
  \<^verbatim>\<open>complete\<close>, and the same event moves it to \<^verbatim>\<open>jd_selection\<close> as well, so \<^verbatim>\<open>complete\<close> is
  left again.
\<close>

theorem rejoining_moves_stage_back:
  "(case run exampleJDs ''u1'' (interviewEvents answering answering) Map.empty ''u1'' of
      Some state \<Rightarrow> currentStage state = closing | None \<Rightarrow> False)
   \<and> (case run exampleJDs ''u1'' (interviewEvents answering answering @ [Joined])
              Map.empty ''u1'' of
      Some state \<Rightarrow> currentStage state = jd_selection
                    \<and> stageRank (currentStage state) < stageRank closing
    | None \<Rightarrow> False)
   \<and> (case run exampleJDs ''u1'' (faultEvents @ [Inbound (Some ''thanks'') answering])
              Map.empty ''u1'' of
      Some state \<Rightarrow> currentStage state = complete | None \<Rightarrow> False)
   \<and> (case run exampleJDs ''u1'' (faultEvents @ [Inbound (Some ''thanks'') answering, Joined])
              Map.empty ''u1'' of
      Some state \<Rightarrow> currentStage state = jd_selection
                    \<and> stageRank (currentStage state) < stageRank complete
    | None \<Rightarrow> False)"
proof -
  let ?f = "[''analyst.txt'', ''auditor.txt'']"
  let ?c = "run exampleJDs ''u1'' (interviewEvents answering answering) Map.empty"
  have c: "sessionAt ?c ''u1'' ?f closing 5" by (rule interview_reaches_closing)
  have j: "sessionAt (step exampleJDs ''u1'' ?c Joined) ''u1'' ?f jd_selection 5"
    by (rule joined_existing[OF c])
  have rj: "run exampleJDs ''u1'' (interviewEvents answering answering @ [Joined]) Map.empty
      = step exampleJDs ''u1'' ?c Joined"
    by (rule run_snoc)
  let ?st9 = "run exampleJDs ''u1'' faultEvents Map.empty"
  obtain s9 where s9: "?st9 ''u1'' = Some s9" "currentStage s9 = closing" "maxQuestions s9 = 5"
      "responses s9 ''jd_q5_entities'' = Some (JArr [JNull])"
    using fault_interview_state by blast
  let ?s10 = "s9\<lparr>conversationHistory := conversationHistory s9 @ [(user, trim (the (Some ''thanks'')))],
                 currentStage := complete\<rparr>"
  have p10: "processUserMessage exampleJDs answering ?st9 ''u1'' (Some ''thanks'')
      = (?st9(''u1'' \<mapsto> ?s10), sendErrorMessage)"
    using closing_fault_step[where st = "?st9" and uid = "''u1''" and s = s9
        and a = "Some ''thanks''" and be = answering and cfg = exampleJDs]
      s9 not_blank_examples(10)
    by simp
  have r10: "run exampleJDs ''u1'' (faultEvents @ [Inbound (Some ''thanks'') answering]) Map.empty
      = ?st9(''u1'' \<mapsto> ?s10)"
    using p10 by (simp add: run_snoc)
  obtain s11 where s11:
      "fst (sendWelcomeMessage exampleJDs (?st9(''u1'' \<mapsto> ?s10)) ''u1'') ''u1'' = Some s11"
      "currentStage s11 = jd_selection"
    using welcome_stage[of exampleJDs "?st9(''u1'' \<mapsto> ?s10)" "''u1''"] by blast
  have r11: "run exampleJDs ''u1'' (faultEvents @ [Inbound (Some ''thanks'') answering, Joined])
        Map.empty
      = fst (sendWelcomeMessage exampleJDs (?st9(''u1'' \<mapsto> ?s10)) ''u1'')"
    using run_snoc[of exampleJDs "''u1''" "faultEvents @ [Inbound (Some ''thanks'') answering]"
        Joined Map.empty] r10
    by simp
  have a1: "case ?c ''u1'' of Some state \<Rightarrow> currentStage state = closing | None \<Rightarrow> False"
    using c by (simp add: sessionAt_def split: option.splits)
  have a2: "case run exampleJDs ''u1'' (interviewEvents answering answering @ [Joined])
              Map.empty ''u1'' of
      Some state \<Rightarrow> currentStage state = jd_selection
                    \<and> stageRank (currentStage state) < stageRank closing
    | None \<Rightarrow> False"
    unfolding rj using j by (simp add: sessionAt_def split: option.splits)
  have a3: "case run exampleJDs ''u1'' (faultEvents @ [Inbound (Some ''thanks'') answering])
              Map.empty ''u1'' of
      Some state \<Rightarrow> currentStage state = complete | None \<Rightarrow> False"
    unfolding r10 by simp
  have a4: "case run exampleJDs ''u1'' (faultEvents @ [Inbound (Some ''thanks'') answering, Joined])
              Map.empty ''u1'' of
      Some state \<Rightarrow> currentStage state = jd_selection
                    \<and> stageRank (currentStage state) < stageRank complete
    | None \<Rightarrow> False"
    unfolding r11 using s11 by simp
  show ?thesis using a1 a2 a3 a4 by blast
qed

end
